theory Spec2Isabelle
  imports Main "HOL-Library.Sublist"
begin

section \<open>Shipment log extraction (extract_logs.py)\<close>

text \<open>
  A shallow embedding of \<^verbatim>\<open>src/extract_logs.py\<close>: the class \<^verbatim>\<open>Shipment\<close> with its four
  regular expressions, and the methods of \<^verbatim>\<open>Shipments\<close> that classify a log file, extract
  its fields, move it and collect the rows of the report.

  Text is a \<^typ>\<open>string\<close>: a list of characters with code points 0 to 255, so the embedding
  covers Latin-1 text, and the character classes below are Python's Unicode classes on that
  range. Exceptions are values of \<open>exn\<close>; a function that can raise returns \<open>exn + 'a\<close>.
\<close>

subsection \<open>The fragment of Python's \<^verbatim>\<open>re\<close> the program uses\<close>

text \<open>
  The exceptions the program can meet. \<open>OSError\<close> stands for an OSError that is neither
  of its subclasses PermissionError and FileNotFoundError.
\<close>

datatype exn =
  IndexError | AttributeError | PermissionError | FileNotFoundError | UnicodeDecodeError | OSError

text \<open>
  The classes \<^verbatim>\<open>\d\<close>, \<^verbatim>\<open>\w\<close> and \<^verbatim>\<open>\s\<close> of a \<^verbatim>\<open>str\<close> pattern. On the code points below 256,
  \<^verbatim>\<open>\d\<close> is 0-9; \<^verbatim>\<open>\w\<close> is the alphanumeric characters and the underscore; \<^verbatim>\<open>\s\<close> is the
  whitespace characters.
\<close>

datatype category = Digit | Word | Space

fun in_category :: "category \<Rightarrow> char \<Rightarrow> bool" where
  "in_category Digit c = (let n = (of_char c :: nat) in 48 \<le> n \<and> n \<le> 57)"
| "in_category Word c = (let n = (of_char c :: nat) in
     (48 \<le> n \<and> n \<le> 57) \<or> (65 \<le> n \<and> n \<le> 90) \<or> n = 95 \<or> (97 \<le> n \<and> n \<le> 122) \<or>
     n = 170 \<or> n = 178 \<or> n = 179 \<or> n = 181 \<or> n = 185 \<or> n = 186 \<or>
     (188 \<le> n \<and> n \<le> 190) \<or> (192 \<le> n \<and> n \<le> 214) \<or> (216 \<le> n \<and> n \<le> 246) \<or>
     (248 \<le> n \<and> n \<le> 255))"
| "in_category Space c = (let n = (of_char c :: nat) in
     (9 \<le> n \<and> n \<le> 13) \<or> (28 \<le> n \<and> n \<le> 32) \<or> n = 133 \<or> n = 160)"

text \<open>
  A compiled pattern is a sequence of operations, as in the \<^verbatim>\<open>re\<close> engine: a literal
  character, one character of a class (\<^verbatim>\<open>[\s]\<close>), a greedy repetition of a class, one or more
  times (\<^verbatim>\<open>[\w]+\<close>), and the two marks of the capturing group.
\<close>

datatype sre_op = Literal char | In_Category category | Max_Repeat category | Mark_Open | Mark_Close

text \<open>
  The marks are the two places of the text where group 1 opens and closes, each kept as
  the text that is left there.
\<close>

type_synonym marks = "string \<times> string"

text \<open>
  \<open>sre_match ops s m\<close> matches the operations at the front of \<open>s\<close> and returns the marks
  and the text left after the match. A greedy repetition first takes the longest run of the
  class, then gives characters back one at a time while the rest of the pattern fails, and
  never gives back the first.
\<close>

fun sre_match :: "sre_op list \<Rightarrow> string \<Rightarrow> marks \<Rightarrow> (marks \<times> string) option"
  and sre_repeat :: "sre_op list \<Rightarrow> string \<Rightarrow> marks \<Rightarrow> nat \<Rightarrow> (marks \<times> string) option"
where
  "sre_match [] s m = Some (m, s)"
| "sre_match (Literal c # ops) s m =
     (case s of [] \<Rightarrow> None | x # xs \<Rightarrow> if x = c then sre_match ops xs m else None)"
| "sre_match (In_Category k # ops) s m =
     (case s of [] \<Rightarrow> None | x # xs \<Rightarrow> if in_category k x then sre_match ops xs m else None)"
| "sre_match (Mark_Open # ops) s m = sre_match ops s (s, snd m)"
| "sre_match (Mark_Close # ops) s m = sre_match ops s (fst m, s)"
| "sre_match (Max_Repeat k # ops) s m =
     sre_repeat ops s m (length (takeWhile (in_category k) s))"
| "sre_repeat ops s m 0 = None"
| "sre_repeat ops s m (Suc n) =
     (case sre_match ops (drop (Suc n) s) m of
        Some r \<Rightarrow> Some r
      | None \<Rightarrow> sre_repeat ops s m n)"

definition group :: "marks \<Rightarrow> string" where
  "group m = take (length (fst m) - length (snd m)) (fst m)"

text \<open>
  \<open>sre_search\<close> tries the pattern at the front of the text, then one character further, and
  so on to the end of the text: it finds the leftmost match, and returns its group 1 and
  the text after the match.
\<close>

fun sre_search :: "sre_op list \<Rightarrow> string \<Rightarrow> (string \<times> string) option" where
  "sre_search ops [] =
     (case sre_match ops [] ([], []) of None \<Rightarrow> None | Some (m, rest) \<Rightarrow> Some (group m, rest))"
| "sre_search ops (c # cs) =
     (case sre_match ops (c # cs) (c # cs, c # cs) of
        None \<Rightarrow> sre_search ops cs
      | Some (m, rest) \<Rightarrow> Some (group m, rest))"

text \<open>
  \<^verbatim>\<open>pattern.findall(string)\<close> for a pattern with one group: the group of every match, found
  by searching again from the end of the match before. Each pattern of this program starts
  with a literal character, so a match is never empty; after an empty match the search
  goes on one character further.
\<close>

function findall :: "sre_op list \<Rightarrow> string \<Rightarrow> string list" where
  "findall ops s =
     (case sre_search ops s of
        None \<Rightarrow> []
      | Some (g, rest) \<Rightarrow>
          g # (if length rest < length s then findall ops rest
               else if s = [] then [] else findall ops (tl s)))"
  by pat_completeness auto
termination
  by (relation "measure (\<lambda>(ops, s). length s)") auto

text \<open>\<^verbatim>\<open>xs[0]\<close>: the first element, or IndexError on the empty list.\<close>

definition item0 :: "'a list \<Rightarrow> exn + 'a" where
  "item0 xs = (case xs of [] \<Rightarrow> Inl IndexError | x # _ \<Rightarrow> Inr x)"

text \<open>\<^verbatim>\<open>needle in text\<close> on strings: \<open>needle\<close> occurs in \<open>text\<close> as a contiguous piece.\<close>

fun str_contains :: "string \<Rightarrow> string \<Rightarrow> bool" where
  "str_contains needle [] = (needle = [])"
| "str_contains needle (c # cs) = (prefix needle (c # cs) \<or> str_contains needle cs)"

subsection \<open>Paths, rows of the report, the log\<close>

text \<open>
  A \<^verbatim>\<open>pathlib.Path\<close> is the list of its components. \<open>name\<close> is the last component (the
  empty string when there is none), \<open>joinpath p n\<close> is \<^verbatim>\<open>p / n\<close> for a file name \<open>n\<close>.
\<close>

type_synonym path = "string list"

definition name :: "path \<Rightarrow> string" where
  "name p = (if p = [] then [] else last p)"

definition joinpath :: "path \<Rightarrow> string \<Rightarrow> path" where
  "joinpath p n = p @ [n]"

text \<open>
  A row of the dataframe is the dictionary that \<^verbatim>\<open>extract_shipment_info\<close> appends: column
  names with their values, a string or a path. The dataframe is the list of its rows, in
  the order they were appended.
\<close>

datatype cell = Str string | Pth path

type_synonym row = "(string \<times> cell) list"

type_synonym dataframe = "row list"

text \<open>
  A call of the \<^verbatim>\<open>logging\<close> module is recorded with its level, its format string and the
  arguments formatted into it (kept beside the format string, not rendered). \<^verbatim>\<open>print\<close> is
  recorded the same way, without a level. The level filter of the handler, set up by
  \<^verbatim>\<open>Settings._format_logging\<close>, is outside the embedding.
\<close>

datatype level = DEBUG | INFO | WARNING | ERROR

datatype arg = Text string | File path | Count nat | Dict row | Frame dataframe

type_synonym message = "string \<times> arg list"

type_synonym log_entry = "level \<times> message"

subsection \<open>class Shipment\<close>

text \<open>
  The attributes \<^verbatim>\<open>reference_id\<close>, \<^verbatim>\<open>job_number\<close>, \<^verbatim>\<open>distribution_order_number\<close> and
  \<^verbatim>\<open>airwaybill\<close> do not exist before \<^verbatim>\<open>extract\<close> assigns them: they are \<open>None\<close> until then.
\<close>

record shipment =
  filepath :: path
  rawtext :: string
  filename :: string
  reference_id_pattern :: "sre_op list"
  job_number_pattern :: "sre_op list"
  distribution_order_number_p :: "sre_op list"
  airwaybill_pattern :: "sre_op list"
  reference_id :: "string option"
  job_number :: "string option"
  distribution_order_number :: "string option"
  airwaybill :: "string option"

text \<open>
  \<^verbatim>\<open>Shipment.__init__\<close>. The four patterns are
  \<^verbatim>\<open>_([\d]+)\<close>, \<^verbatim>\<open>Shipment:[\s]+([\w]+)\<close>, \<^verbatim>\<open>Shipment:[\s]+[\w]+-([\w]+)\<close> and \<^verbatim>\<open>,[\s]([\w]+),\<close>.
\<close>

definition Shipment :: "path \<Rightarrow> string \<Rightarrow> shipment" where
  "Shipment fp raw =
     \<lparr> filepath = fp,
       rawtext = raw,
       filename = name fp,
       reference_id_pattern =
         [Literal (CHR ''_''), Mark_Open, Max_Repeat Digit, Mark_Close],
       job_number_pattern =
         map Literal ''Shipment:'' @ [Max_Repeat Space, Mark_Open, Max_Repeat Word, Mark_Close],
       distribution_order_number_p =
         map Literal ''Shipment:'' @
         [Max_Repeat Space, Max_Repeat Word, Literal (CHR ''-''),
          Mark_Open, Max_Repeat Word, Mark_Close],
       airwaybill_pattern =
         [Literal (CHR '',''), In_Category Space, Mark_Open, Max_Repeat Word, Mark_Close,
          Literal (CHR '','')],
       reference_id = None,
       job_number = None,
       distribution_order_number = None,
       airwaybill = None \<rparr>"

text \<open>
  \<^verbatim>\<open>Shipment.extract\<close>: four assignments in the order of the source, each the first element
  of a \<^verbatim>\<open>findall\<close>. The first empty \<^verbatim>\<open>findall\<close> raises IndexError and the later assignments
  are not reached.
\<close>

definition Shipment_extract :: "shipment \<Rightarrow> exn + shipment" where
  "Shipment_extract self =
     (case item0 (findall (reference_id_pattern self) (filename self)) of
        Inl e \<Rightarrow> Inl e
      | Inr r \<Rightarrow>
     (case item0 (findall (job_number_pattern self) (rawtext self)) of
        Inl e \<Rightarrow> Inl e
      | Inr j \<Rightarrow>
     (case item0 (findall (distribution_order_number_p self) (rawtext self)) of
        Inl e \<Rightarrow> Inl e
      | Inr d \<Rightarrow>
     (case item0 (findall (airwaybill_pattern self) (rawtext self)) of
        Inl e \<Rightarrow> Inl e
      | Inr a \<Rightarrow>
          Inr (self\<lparr> reference_id := Some r, job_number := Some j,
                     distribution_order_number := Some d, airwaybill := Some a \<rparr>)))))"

subsection \<open>The settings, the files and the state of a run\<close>

text \<open>
  The attributes of \<^verbatim>\<open>Shipments\<close> that the methods below read. They come from
  \<^verbatim>\<open>settings.json\<close> and are fixed during a run.
\<close>

record settings =
  process_criteria :: string
  move_processed :: bool
  move_skipped :: bool
  warn_if_more_than_1Detail :: bool
  move_undhandled_files_to_warning :: bool
  processed :: path
  skipped :: path
  warning :: path
  UNC_processed :: path

text \<open>
  A file that \<^verbatim>\<open>self.source.glob('**/*.txt')\<close> yields, with what the file system does
  for it: \<open>read_result\<close> is what \<^verbatim>\<open>open(textfile, 'r')\<close> followed by \<^verbatim>\<open>text.read()\<close> gives, the
  text or the exception raised; \<open>rename_result\<close> is what \<^verbatim>\<open>os.rename\<close> does when the file is
  moved, \<open>None\<close> when it succeeds and the exception otherwise. A file is moved at most once
  in a run.
\<close>

record source_file =
  textfile :: path
  read_result :: "exn + string"
  rename_result :: "exn option"

text \<open>
  What a run leaves behind outside its variables: the calls of \<^verbatim>\<open>logging\<close>, the lines
  printed, and the files renamed (source and destination), each in order.
\<close>

record effects =
  logged :: "log_entry list"
  printed :: "message list"
  renamed :: "(path \<times> path) list"

text \<open>The local variables of \<^verbatim>\<open>extract_information\<close>, on top of the effects.\<close>

record run = effects +
  df :: dataframe
  total_count :: nat
  processed_count :: nat
  skipped_count :: nat
  warnings_count :: nat

definition logging :: "level \<Rightarrow> message \<Rightarrow> 'a effects_scheme \<Rightarrow> 'a effects_scheme" where
  "logging lv msg w = w\<lparr> logged := logged w @ [(lv, msg)] \<rparr>"

definition print :: "message \<Rightarrow> 'a effects_scheme \<Rightarrow> 'a effects_scheme" where
  "print msg w = w\<lparr> printed := printed w @ [msg] \<rparr>"

subsection \<open>class Shipments\<close>

text \<open>\<^verbatim>\<open>Shipments._check_if_1Details\<close>: True if there is an issue.\<close>

definition check_if_1Details ::
  "settings \<Rightarrow> path \<Rightarrow> string \<Rightarrow> 'a effects_scheme \<Rightarrow> bool \<times> 'a effects_scheme" where
  "check_if_1Details self tf raw w =
     (if warn_if_more_than_1Detail self then
        if \<not> str_contains ''1Details'' raw then
          let message = (''{} contains more than 1 Detail!!!!\<newline> Please add manually'',
                         [Text (name tf)])
          in (True, print message (logging WARNING message w))
        else (False, w)
      else (False, w))"

text \<open>
  \<^verbatim>\<open>Shipments._move_file_safely\<close>. The first argument is what \<^verbatim>\<open>os.rename\<close> does. The last
  \<^verbatim>\<open>except\<close> clause builds a message and does nothing with it.
\<close>

definition move_file_safely ::
  "exn option \<Rightarrow> path \<Rightarrow> path \<Rightarrow> 'a effects_scheme \<Rightarrow> 'a effects_scheme" where
  "move_file_safely os_rename p destination w =
     (let w1 = logging DEBUG (''File is moved: {} -> {}'', [File p, File destination]) w
      in case os_rename of
           None \<Rightarrow> w1\<lparr> renamed := renamed w1 @ [(p, destination)] \<rparr>
         | Some PermissionError \<Rightarrow>
             logging ERROR (''File in use. File could not be moved. File:{}'', [Text (name p)]) w1
         | Some FileNotFoundError \<Rightarrow>
             logging ERROR (''File was not found. {}'', [Text (name p)]) w1
         | Some _ \<Rightarrow> w1)"

text \<open>\<^verbatim>\<open>Shipments._file_could_not_be_handled\<close>\<close>

definition file_could_not_be_handled ::
  "settings \<Rightarrow> source_file \<Rightarrow> 'a effects_scheme \<Rightarrow> 'a effects_scheme" where
  "file_could_not_be_handled self f w =
     (if move_undhandled_files_to_warning self
      then move_file_safely (rename_result f) (textfile f)
             (joinpath (warning self) (name (textfile f))) w
      else w)"

text \<open>
  The dictionary \<^verbatim>\<open>new_shipment_data\<close>. Reading an attribute that \<^verbatim>\<open>extract\<close> has not
  assigned raises AttributeError.
\<close>

definition new_shipment_data :: "settings \<Rightarrow> shipment \<Rightarrow> exn + row" where
  "new_shipment_data self sh =
     (case (reference_id sh, job_number sh, distribution_order_number sh, airwaybill sh) of
        (Some r, Some j, Some d, Some a) \<Rightarrow>
          Inr [(''reference_id'', Str r),
               (''job_number'', Str j),
               (''distribution_order_number'', Str d),
               (''airwaybill'', Str a),
               (''path'', Pth (filepath sh)),
               (''unc_path'', Pth (joinpath (UNC_processed self) (filename sh)))]
      | _ \<Rightarrow> Inl AttributeError)"

text \<open>
  \<^verbatim>\<open>Shipments.extract_shipment_info\<close>: returns the dataframe and \<^verbatim>\<open>patterns_found\<close>. The
  body of the \<^verbatim>\<open>try\<close> is \<open>shipment_row\<close>; the bare \<^verbatim>\<open>except\<close> catches every exception. The
  warning it logs is not an f-string, so the braces are logged as they are.
  \<^verbatim>\<open>DataFrame.append\<close> is the one of pandas before 2.0.
\<close>

definition shipment_row :: "settings \<Rightarrow> path \<Rightarrow> string \<Rightarrow> exn + row" where
  "shipment_row self tf raw =
     (case Shipment_extract (Shipment tf raw) of
        Inl e \<Rightarrow> Inl e
      | Inr sh \<Rightarrow> new_shipment_data self sh)"

definition extract_shipment_info ::
  "settings \<Rightarrow> dataframe \<Rightarrow> path \<Rightarrow> string \<Rightarrow> 'a effects_scheme
     \<Rightarrow> (dataframe \<times> bool) \<times> 'a effects_scheme" where
  "extract_shipment_info self d tf raw w =
     (let w1 = logging DEBUG (''extract_shipment_info_function - textfile:{}'', [File tf]) w;
          w2 = logging DEBUG (''extract_shipment_info_function - textfile:{}'', [Text raw]) w1
      in case shipment_row self tf raw of
           Inr r \<Rightarrow>
             ((d @ [r], True),
              logging DEBUG (''Shipment attributes:'' @ [CHR 0x09] @ ''{}'', [Dict r]) w2)
         | Inl e \<Rightarrow>
             ((d, False),
              logging WARNING
                (''{textfile} did not match the regular expression patterns!!'', []) w2))"

text \<open>
  The body of the loop of \<^verbatim>\<open>Shipments.extract_information\<close>, for one file. An exception
  of the read is not caught in the source, so it leaves the loop and the method.
\<close>

definition loop_body :: "settings \<Rightarrow> source_file \<Rightarrow> run \<Rightarrow> exn + run" where
  "loop_body self f st0 =
     (let st = st0\<lparr> total_count := total_count st0 + 1 \<rparr>
      in case read_result f of
           Inl e \<Rightarrow> Inl e
         | Inr raw \<Rightarrow>
             if str_contains (process_criteria self) raw then
               (case check_if_1Details self (textfile f) raw st of
                  (True, st1) \<Rightarrow>
                    (let st2 = file_could_not_be_handled self f st1
                     in Inr (st2\<lparr> warnings_count := warnings_count st2 + 1 \<rparr>))
                | (False, st1) \<Rightarrow>
                    (case extract_shipment_info self (df st1) (textfile f) raw st1 of
                       ((d, patterns_found), st2) \<Rightarrow>
                         (let st3 = st2\<lparr> df := d \<rparr>
                          in if patterns_found then
                               (let st4 = st3\<lparr> processed_count := processed_count st3 + 1 \<rparr>
                                in if move_processed self
                                   then Inr (move_file_safely (rename_result f) (textfile f)
                                               (joinpath (processed self) (name (textfile f))) st4)
                                   else Inr st4)
                             else
                               (let st4 = file_could_not_be_handled self f st3
                                in Inr (st4\<lparr> warnings_count := warnings_count st4 + 1 \<rparr>)))))
             else
               (let st1 = st\<lparr> skipped_count := skipped_count st + 1 \<rparr>
                in if move_skipped self
                   then Inr (move_file_safely (rename_result f) (textfile f)
                               (joinpath (skipped self) (name (textfile f))) st1)
                   else Inr st1))"

text \<open>The \<^verbatim>\<open>for\<close> loop: the files in the order of the enumeration.\<close>

fun loop :: "settings \<Rightarrow> source_file list \<Rightarrow> run \<Rightarrow> exn + run" where
  "loop self [] st = Inr st"
| "loop self (f # fs) st =
     (case loop_body self f st of
        Inl e \<Rightarrow> Inl e
      | Inr st' \<Rightarrow> loop self fs st')"

text \<open>
  \<^verbatim>\<open>Shipments.extract_information\<close>, started with the effects \<open>w\<close> that are there before the
  call. The state returned holds the dataframe that the method returns and assigns to
  \<^verbatim>\<open>self.df\<close>, and the four counters.
\<close>

definition extract_information :: "settings \<Rightarrow> source_file list \<Rightarrow> effects \<Rightarrow> exn + run" where
  "extract_information self files w =
     (case loop self files
             \<lparr> logged = logged w, printed = printed w, renamed = renamed w,
               df = [], total_count = 0, processed_count = 0, skipped_count = 0,
               warnings_count = 0 \<rparr> of
        Inl e \<Rightarrow> Inl e
      | Inr st \<Rightarrow>
          (let message =
                 (''Total files handled: {} Processed files: {} Skipped files: {} Warnings:{}'',
                  [Count (total_count st), Count (processed_count st),
                   Count (skipped_count st), Count (warnings_count st)]);
               st1 = print message (logging INFO message st);
               message = (''Script finished successfully'', [])
           in Inr (print message (logging INFO message st1))))"

text \<open>
  \<^verbatim>\<open>DataFrame.drop_duplicates(subset=...)\<close> with the default \<^verbatim>\<open>keep='first'\<close>: the rows are
  read in order, and a row is dropped when an earlier row has the same values in the
  columns \<open>cols\<close> given as \<^verbatim>\<open>subset\<close>. \<open>seen\<close> holds the values met so far.
\<close>

definition row_key :: "string list \<Rightarrow> row \<Rightarrow> cell option list" where
  "row_key cols r = map (map_of r) cols"

fun drop_duplicates_seen ::
  "string list \<Rightarrow> cell option list list \<Rightarrow> dataframe \<Rightarrow> dataframe" where
  "drop_duplicates_seen cols seen [] = []"
| "drop_duplicates_seen cols seen (r # rs) =
     (if row_key cols r \<in> set seen then drop_duplicates_seen cols seen rs
      else r # drop_duplicates_seen cols (row_key cols r # seen) rs)"

definition drop_duplicates :: "string list \<Rightarrow> dataframe \<Rightarrow> dataframe" where
  "drop_duplicates cols d = drop_duplicates_seen cols [] d"

text \<open>
  \<^verbatim>\<open>Shipments.export_dataframe\<close>: returns \<^verbatim>\<open>self.unique_df\<close>, the table written to the .csv
  file. The name of the file, made from the clock, is outside the embedding.
\<close>

definition export_dataframe :: "run \<Rightarrow> dataframe \<times> run" where
  "export_dataframe st =
     (let st1 = logging DEBUG (''{}'', [Frame (df st)]) st;
          unique_df = drop_duplicates [''distribution_order_number'', ''airwaybill''] (df st)
      in (unique_df, logging DEBUG (''{}'', [Frame unique_df]) st1))"

subsection \<open>Notions used to state the properties\<close>

text \<open>
  \<open>match_at ops s i\<close> is group 1 of the match of the pattern that starts at offset \<open>i\<close> of
  \<open>s\<close>, if the pattern matches there. \<open>leftmost ops s i\<close> says that \<open>i\<close> is the first offset
  of \<open>s\<close> at which the pattern matches.
\<close>

definition match_at :: "sre_op list \<Rightarrow> string \<Rightarrow> nat \<Rightarrow> string option" where
  "match_at ops s i =
     (case sre_match ops (drop i s) (drop i s, drop i s) of
        None \<Rightarrow> None
      | Some (m, rest) \<Rightarrow> Some (group m))"

definition leftmost :: "sre_op list \<Rightarrow> string \<Rightarrow> nat \<Rightarrow> bool" where
  "leftmost ops s i =
     (i \<le> length s \<and> match_at ops s i \<noteq> None \<and>
      list_all (\<lambda>j. match_at ops s j = None) [0..<i])"

text \<open>
  The settings that \<^verbatim>\<open>Shipments.__init__\<close> and \<^verbatim>\<open>Settings.__init__\<close> use when
  \<^verbatim>\<open>settings.json\<close> gives none: the defaults of their \<^verbatim>\<open>get\<close> calls.
\<close>

definition default_settings :: settings where
  "default_settings =
     \<lparr> process_criteria = ''ZRH'',
       move_processed = False,
       move_skipped = False,
       warn_if_more_than_1Detail = True,
       move_undhandled_files_to_warning = True,
       processed = [''processed''],
       skipped = [''skipped''],
       warning = [''warning''],
       UNC_processed = [''UNC_processed''] \<rparr>"

text \<open>A run that has not seen a file yet, and no effects.\<close>

definition no_effects :: effects where
  "no_effects = \<lparr> logged = [], printed = [], renamed = [] \<rparr>"

definition fresh_run :: run where
  "fresh_run =
     \<lparr> logged = [], printed = [], renamed = [],
       df = [], total_count = 0, processed_count = 0, skipped_count = 0,
       warnings_count = 0 \<rparr>"

text \<open>A text in which each pattern matches twice, with different groups.\<close>

definition two_shipments :: string where
  "two_shipments = ''ZRH 1Details Shipment: A1-B1 AWB, X1, Shipment: A2-B2 AWB, X2,''"

text \<open>
  The file of the end-to-end example: \<^verbatim>\<open>log_00123.txt\<close> in the source directory, with the
  scope marker, the single-detail marker, one shipment line and one airwaybill segment.
\<close>

definition example_text :: string where
  "example_text = ''ZRH 1Details Shipment: JOB456-DO789, AWB001,''"

definition example_file :: source_file where
  "example_file =
     \<lparr> textfile = [''source'', ''log_00123.txt''],
       read_result = Inr example_text,
       rename_result = None \<rparr>"

text \<open>The same file with the four segments separated by commas.\<close>

definition comma_text :: string where
  "comma_text = ''ZRH, 1Details, Shipment: JOB456-DO789, AWB001,''"

definition comma_file :: source_file where
  "comma_file =
     \<lparr> textfile = [''source'', ''log_00123.txt''],
       read_result = Inr comma_text,
       rename_result = None \<rparr>"

text \<open>The same file with a shipment line that has no distribution order number.\<close>

definition no_order_text :: string where
  "no_order_text = ''ZRH 1Details Shipment: JOB456, AWB001,''"

definition no_order_file :: source_file where
  "no_order_file =
     \<lparr> textfile = [''source'', ''log_00123.txt''],
       read_result = Inr no_order_text,
       rename_result = None \<rparr>"

text \<open>
  The rows that one file adds to the dataframe: one row when the file is read, is in
  scope and simple and the extraction succeeds, none otherwise.
\<close>

definition file_rows :: "settings \<Rightarrow> source_file \<Rightarrow> row list" where
  "file_rows self f =
     (case read_result f of
        Inl e \<Rightarrow> []
      | Inr raw \<Rightarrow>
          if str_contains (process_criteria self) raw \<and>
             (warn_if_more_than_1Detail self \<longrightarrow> str_contains ''1Details'' raw)
          then (case shipment_row self (textfile f) raw of Inr r \<Rightarrow> [r] | Inl e \<Rightarrow> [])
          else [])"

text \<open>Three files: one processed, one out of scope, one with a pattern that fails.\<close>

definition other_site_file :: source_file where
  "other_site_file =
     \<lparr> textfile = [''source'', ''log_00124.txt''],
       read_result = Inr ''GVA 1Details Shipment: JOB457-DO790, AWB002,'',
       rename_result = None \<rparr>"

definition three_files :: "source_file list" where
  "three_files = [example_file, other_site_file, no_order_file]"

text \<open>
  A file of another site that is in use when the run tries to move it, and the default
  settings with the toggle \<^verbatim>\<open>move_skipped\<close> switched on.
\<close>

definition locked_file :: source_file where
  "locked_file =
     \<lparr> textfile = [''source'', ''log_00125.txt''],
       read_result = Inr ''GVA 1Details Shipment: JOB458-DO791, AWB003,'',
       rename_result = Some PermissionError \<rparr>"

definition move_skipped_settings :: settings where
  "move_skipped_settings = default_settings\<lparr> move_skipped := True \<rparr>"

text \<open>
  A file that is in scope and in which all four patterns match, but without the
  single-detail marker.
\<close>

definition two_details_text :: string where
  "two_details_text = ''ZRH 2Details Shipment: JOB456-DO789, AWB001,''"

definition two_details_file :: source_file where
  "two_details_file =
     \<lparr> textfile = [''source'', ''log_00126.txt''],
       read_result = Inr two_details_text,
       rename_result = None \<rparr>"

definition no_warn_settings :: settings where
  "no_warn_settings = default_settings\<lparr> warn_if_more_than_1Detail := False \<rparr>"

text \<open>The key of a row in the export: its distribution order number and its airwaybill.\<close>

definition export_key :: "row \<Rightarrow> cell option list" where
  "export_key r = row_key [''distribution_order_number'', ''airwaybill''] r"

text \<open>
  Three rows: the first two have the same distribution order number and airwaybill and
  different reference ids, the third has another distribution order number.
\<close>

definition report_row :: "string \<Rightarrow> string \<Rightarrow> string \<Rightarrow> string \<Rightarrow> row" where
  "report_row r j d a =
     [(''reference_id'', Str r),
      (''job_number'', Str j),
      (''distribution_order_number'', Str d),
      (''airwaybill'', Str a),
      (''path'', Pth [''source'', ''log_'' @ r @ ''.txt'']),
      (''unc_path'', Pth [''UNC_processed'', ''log_'' @ r @ ''.txt''])]"

definition duplicate_run :: run where
  "duplicate_run =
     fresh_run\<lparr> df := [report_row ''1'' ''J1'' ''DO1'' ''AWB1'',
                        report_row ''2'' ''J1'' ''DO1'' ''AWB1'',
                        report_row ''3'' ''J2'' ''DO2'' ''AWB1''] \<rparr>"

section \<open>Properties\<close>

subsection \<open>Searching and \<^verbatim>\<open>findall\<close>\<close>

declare findall.simps [simp del]

lemma leftmost_iff:
  "leftmost ops s i \<longleftrightarrow>
     i \<le> length s \<and> match_at ops s i \<noteq> None \<and> (\<forall>j<i. match_at ops s j = None)"
  by (auto simp: leftmost_def list_all_iff)

lemma match_at_Cons_Suc: "match_at ops (c # cs) (Suc i) = match_at ops cs i"
  by (simp add: match_at_def)

lemma leftmost_Cons:
  assumes "match_at ops (c # cs) 0 = None" and "leftmost ops cs i"
  shows "leftmost ops (c # cs) (Suc i)"
  using assms unfolding leftmost_iff
  by (auto simp: match_at_Cons_Suc less_Suc_eq_0_disj)

lemma sre_search_leftmost:
  "sre_search ops s = Some (g, rest) \<Longrightarrow> \<exists>i. leftmost ops s i \<and> match_at ops s i = Some g"
proof (induction s)
  case Nil
  then have "leftmost ops [] 0 \<and> match_at ops [] 0 = Some g"
    by (auto simp: leftmost_iff match_at_def split: option.splits)
  then show ?case by blast
next
  case (Cons c cs)
  show ?case
  proof (cases "sre_match ops (c # cs) (c # cs, c # cs)")
    case None
    then have 0: "match_at ops (c # cs) 0 = None"
      by (simp add: match_at_def)
    from None Cons.prems have "sre_search ops cs = Some (g, rest)" by simp
    then obtain i where i: "leftmost ops cs i" "match_at ops cs i = Some g"
      using Cons.IH by blast
    then have "leftmost ops (c # cs) (Suc i) \<and> match_at ops (c # cs) (Suc i) = Some g"
      using 0 by (simp add: leftmost_Cons match_at_Cons_Suc)
    then show ?thesis by blast
  next
    case (Some r)
    with Cons.prems have "leftmost ops (c # cs) 0 \<and> match_at ops (c # cs) 0 = Some g"
      by (auto simp: leftmost_iff match_at_def split: prod.splits)
    then show ?thesis by blast
  qed
qed

lemma item0_findall:
  "item0 (findall ops s) =
     (case sre_search ops s of None \<Rightarrow> Inl IndexError | Some (g, rest) \<Rightarrow> Inr g)"
  by (subst findall.simps) (simp add: item0_def split: option.splits)

lemma item0_Inr_iff: "item0 xs = Inr x \<longleftrightarrow> (\<exists>ys. xs = x # ys)"
  by (cases xs) (auto simp: item0_def)

lemma item0_Inl_iff: "item0 xs = Inl e \<longleftrightarrow> xs = [] \<and> e = IndexError"
  by (cases xs) (auto simp: item0_def)

lemma findall_first_leftmost:
  "findall ops s = g # gs \<Longrightarrow> \<exists>i. leftmost ops s i \<and> match_at ops s i = Some g"
proof -
  assume "findall ops s = g # gs"
  then have "item0 (findall ops s) = Inr g" by (simp add: item0_def)
  then obtain rest where "sre_search ops s = Some (g, rest)"
    by (auto simp: item0_findall split: option.splits)
  then show ?thesis by (rule sre_search_leftmost)
qed

lemma Shipment_extract_Inr_iff:
  "Shipment_extract self = Inr sh \<longleftrightarrow>
     (\<exists>r rs j js d ds a as.
        findall (reference_id_pattern self) (filename self) = r # rs \<and>
        findall (job_number_pattern self) (rawtext self) = j # js \<and>
        findall (distribution_order_number_p self) (rawtext self) = d # ds \<and>
        findall (airwaybill_pattern self) (rawtext self) = a # as \<and>
        sh = self\<lparr> reference_id := Some r, job_number := Some j,
                    distribution_order_number := Some d, airwaybill := Some a \<rparr>)"
  unfolding Shipment_extract_def
  by (auto simp: item0_Inr_iff split: sum.splits) (auto simp: item0_def split: list.splits)

lemma Shipment_extract_Inl_iff:
  "Shipment_extract self = Inl e \<longleftrightarrow>
     e = IndexError \<and>
     (findall (reference_id_pattern self) (filename self) = [] \<or>
      findall (job_number_pattern self) (rawtext self) = [] \<or>
      findall (distribution_order_number_p self) (rawtext self) = [] \<or>
      findall (airwaybill_pattern self) (rawtext self) = [])"
  unfolding Shipment_extract_def
  by (auto simp: item0_def split: sum.splits list.splits)

subsection \<open>First match wins\<close>

text \<open>
  C3. Whenever the extraction succeeds, each of the four fields is group 1 of the leftmost
  match of its pattern: the match at the first offset of the file name (for the reference
  id) or of the text (for the job number, the distribution order number and the airwaybill)
  at which the pattern matches. Later matches of the pattern have no influence. The same
  holds for each assignment of \<^verbatim>\<open>extract\<close> on its own: the first element of a \<^verbatim>\<open>findall\<close>,
  for any pattern and any text, is group 1 of the leftmost match.
\<close>

theorem first_match_wins:
  assumes "Shipment_extract (Shipment fp raw) = Inr sh"
  shows "(\<exists>i. leftmost (reference_id_pattern (Shipment fp raw)) (name fp) i \<and>
              reference_id sh = match_at (reference_id_pattern (Shipment fp raw)) (name fp) i) \<and>
         (\<exists>i. leftmost (job_number_pattern (Shipment fp raw)) raw i \<and>
              job_number sh = match_at (job_number_pattern (Shipment fp raw)) raw i) \<and>
         (\<exists>i. leftmost (distribution_order_number_p (Shipment fp raw)) raw i \<and>
              distribution_order_number sh =
                match_at (distribution_order_number_p (Shipment fp raw)) raw i) \<and>
         (\<exists>i. leftmost (airwaybill_pattern (Shipment fp raw)) raw i \<and>
              airwaybill sh = match_at (airwaybill_pattern (Shipment fp raw)) raw i) \<and>
         (\<forall>ops s g. item0 (findall ops s) = Inr g \<longrightarrow>
              (\<exists>i. leftmost ops s i \<and> match_at ops s i = Some g))"
proof -
  let ?S = "Shipment fp raw"
  have fn: "filename ?S = name fp" and rt: "rawtext ?S = raw"
    by (simp_all add: Shipment_def)
  from assms obtain r rs j js d ds a as where
    r: "findall (reference_id_pattern ?S) (name fp) = r # rs" and
    j: "findall (job_number_pattern ?S) raw = j # js" and
    d: "findall (distribution_order_number_p ?S) raw = d # ds" and
    a: "findall (airwaybill_pattern ?S) raw = a # as" and
    sh: "sh = ?S\<lparr> reference_id := Some r, job_number := Some j,
                    distribution_order_number := Some d, airwaybill := Some a \<rparr>"
    unfolding Shipment_extract_Inr_iff fn rt by blast
  from findall_first_leftmost [OF r] sh
  have 1: "\<exists>i. leftmost (reference_id_pattern ?S) (name fp) i \<and>
              reference_id sh = match_at (reference_id_pattern ?S) (name fp) i"
    by auto
  from findall_first_leftmost [OF j] sh
  have 2: "\<exists>i. leftmost (job_number_pattern ?S) raw i \<and>
              job_number sh = match_at (job_number_pattern ?S) raw i"
    by auto
  from findall_first_leftmost [OF d] sh
  have 3: "\<exists>i. leftmost (distribution_order_number_p ?S) raw i \<and>
              distribution_order_number sh = match_at (distribution_order_number_p ?S) raw i"
    by auto
  from findall_first_leftmost [OF a] sh
  have 4: "\<exists>i. leftmost (airwaybill_pattern ?S) raw i \<and>
              airwaybill sh = match_at (airwaybill_pattern ?S) raw i"
    by auto
  have 5: "\<forall>ops s g. item0 (findall ops s) = Inr g \<longrightarrow>
              (\<exists>i. leftmost ops s i \<and> match_at ops s i = Some g)"
    using findall_first_leftmost by (auto simp: item0_Inr_iff)
  from 1 2 3 4 5 show ?thesis by blast
qed

lemma two_shipments_extract:
  "Shipment_extract (Shipment [''source'', ''log_17_18.txt''] two_shipments) =
     Inr ((Shipment [''source'', ''log_17_18.txt''] two_shipments)
            \<lparr> reference_id := Some ''17'', job_number := Some ''A1'',
              distribution_order_number := Some ''B1'', airwaybill := Some ''X1'' \<rparr>)"
  by (simp add: Shipment_extract_def Shipment_def two_shipments_def name_def item0_def
        findall.simps group_def)

lemma two_shipments_findall:
  "findall (reference_id_pattern (Shipment fp raw)) ''log_17_18.txt'' = [''17'', ''18'']"
  "findall (job_number_pattern (Shipment fp raw)) two_shipments = [''A1'', ''A2'']"
  "findall (distribution_order_number_p (Shipment fp raw)) two_shipments = [''B1'', ''B2'']"
  "findall (airwaybill_pattern (Shipment fp raw)) two_shipments = [''X1'', ''X2'']"
  by (simp_all add: Shipment_def two_shipments_def findall.simps group_def)

lemma two_shipments_offsets:
  "leftmost (job_number_pattern (Shipment fp raw)) two_shipments 13"
  "match_at (job_number_pattern (Shipment fp raw)) two_shipments 13 = Some ''A1''"
  "match_at (job_number_pattern (Shipment fp raw)) two_shipments 38 = Some ''A2''"
  by (simp_all add: leftmost_def match_at_def Shipment_def two_shipments_def group_def
        upt_rec [of _ "numeral _"])

theorem first_match_wins_witness:
  "Shipment_extract (Shipment [''source'', ''log_17_18.txt''] two_shipments) =
     Inr ((Shipment [''source'', ''log_17_18.txt''] two_shipments)
            \<lparr> reference_id := Some ''17'', job_number := Some ''A1'',
              distribution_order_number := Some ''B1'', airwaybill := Some ''X1'' \<rparr>) \<and>
   findall (job_number_pattern (Shipment [''source'', ''log_17_18.txt''] two_shipments))
     two_shipments = [''A1'', ''A2''] \<and>
   leftmost (job_number_pattern (Shipment [''source'', ''log_17_18.txt''] two_shipments))
     two_shipments 13 \<and>
   match_at (job_number_pattern (Shipment [''source'', ''log_17_18.txt''] two_shipments))
     two_shipments 13 = Some ''A1'' \<and>
   match_at (job_number_pattern (Shipment [''source'', ''log_17_18.txt''] two_shipments))
     two_shipments 38 = Some ''A2'' \<and>
   (\<exists>i. leftmost (job_number_pattern (Shipment [''source'', ''log_17_18.txt''] two_shipments))
          two_shipments i \<and>
        match_at (job_number_pattern (Shipment [''source'', ''log_17_18.txt''] two_shipments))
          two_shipments i = Some ''A1'')"
proof -
  let ?S = "Shipment [''source'', ''log_17_18.txt''] two_shipments"
  let ?sh = "?S\<lparr> reference_id := Some ''17'', job_number := Some ''A1'',
                   distribution_order_number := Some ''B1'', airwaybill := Some ''X1'' \<rparr>"
  have "\<exists>i. leftmost (job_number_pattern ?S) two_shipments i \<and>
            job_number ?sh = match_at (job_number_pattern ?S) two_shipments i"
    using first_match_wins [OF two_shipments_extract] by blast
  then have "\<exists>i. leftmost (job_number_pattern ?S) two_shipments i \<and>
            match_at (job_number_pattern ?S) two_shipments i = Some ''A1''"
    by auto
  with two_shipments_extract two_shipments_findall(2) two_shipments_offsets show ?thesis
    by blast
qed

subsection \<open>What the methods change\<close>

lemma logging_effects [simp]:
  "logged (logging lv msg w) = logged w @ [(lv, msg)]"
  "printed (logging lv msg w) = printed w"
  "renamed (logging lv msg w) = renamed w"
  by (simp_all add: logging_def)

lemma logging_run [simp]:
  "df (logging lv msg st) = df st"
  "total_count (logging lv msg st) = total_count st"
  "processed_count (logging lv msg st) = processed_count st"
  "skipped_count (logging lv msg st) = skipped_count st"
  "warnings_count (logging lv msg st) = warnings_count st"
  by (simp_all add: logging_def)

lemma print_effects [simp]:
  "logged (print msg w) = logged w"
  "printed (print msg w) = printed w @ [msg]"
  "renamed (print msg w) = renamed w"
  by (simp_all add: print_def)

lemma print_run [simp]:
  "df (print msg st) = df st"
  "total_count (print msg st) = total_count st"
  "processed_count (print msg st) = processed_count st"
  "skipped_count (print msg st) = skipped_count st"
  "warnings_count (print msg st) = warnings_count st"
  by (simp_all add: print_def)

lemma move_file_safely_run [simp]:
  "df (move_file_safely r p d st) = df st"
  "total_count (move_file_safely r p d st) = total_count st"
  "processed_count (move_file_safely r p d st) = processed_count st"
  "skipped_count (move_file_safely r p d st) = skipped_count st"
  "warnings_count (move_file_safely r p d st) = warnings_count st"
  "printed (move_file_safely r p d st) = printed st"
  by (simp_all add: move_file_safely_def Let_def split: option.splits exn.splits)

lemma move_file_safely_renamed:
  "renamed (move_file_safely r p d w) = (if r = None then renamed w @ [(p, d)] else renamed w)"
  by (simp add: move_file_safely_def Let_def split: option.splits exn.splits)

lemma move_file_safely_logged:
  "logged (move_file_safely r p d w) =
     logged w @ (DEBUG, ''File is moved: {} -> {}'', [File p, File d]) #
       (if r = Some PermissionError
        then [(ERROR, ''File in use. File could not be moved. File:{}'', [Text (name p)])]
        else if r = Some FileNotFoundError
        then [(ERROR, ''File was not found. {}'', [Text (name p)])]
        else [])"
  by (simp add: move_file_safely_def Let_def split: option.splits exn.splits)

lemma file_could_not_be_handled_run [simp]:
  "df (file_could_not_be_handled self f st) = df st"
  "total_count (file_could_not_be_handled self f st) = total_count st"
  "processed_count (file_could_not_be_handled self f st) = processed_count st"
  "skipped_count (file_could_not_be_handled self f st) = skipped_count st"
  "warnings_count (file_could_not_be_handled self f st) = warnings_count st"
  "printed (file_could_not_be_handled self f st) = printed st"
  by (simp_all add: file_could_not_be_handled_def)

lemma check_if_1Details_fst:
  "fst (check_if_1Details self tf raw w) =
     (warn_if_more_than_1Detail self \<and> \<not> str_contains ''1Details'' raw)"
  by (simp add: check_if_1Details_def Let_def)

lemma check_if_1Details_issue:
  assumes "warn_if_more_than_1Detail self" and "\<not> str_contains ''1Details'' raw"
  shows "check_if_1Details self tf raw w =
     (True,
      print (''{} contains more than 1 Detail!!!!\<newline> Please add manually'', [Text (name tf)])
        (logging WARNING
           (''{} contains more than 1 Detail!!!!\<newline> Please add manually'', [Text (name tf)])
           w))"
  using assms by (simp add: check_if_1Details_def Let_def)

lemma check_if_1Details_simple:
  assumes "warn_if_more_than_1Detail self \<longrightarrow> str_contains ''1Details'' raw"
  shows "check_if_1Details self tf raw w = (False, w)"
  using assms by (simp add: check_if_1Details_def)

lemma shipment_row_Inr_iff:
  "shipment_row self tf raw = Inr row \<longleftrightarrow>
     (\<exists>r rs j js d ds a as.
        findall (reference_id_pattern (Shipment tf raw)) (name tf) = r # rs \<and>
        findall (job_number_pattern (Shipment tf raw)) raw = j # js \<and>
        findall (distribution_order_number_p (Shipment tf raw)) raw = d # ds \<and>
        findall (airwaybill_pattern (Shipment tf raw)) raw = a # as \<and>
        row = [(''reference_id'', Str r),
               (''job_number'', Str j),
               (''distribution_order_number'', Str d),
               (''airwaybill'', Str a),
               (''path'', Pth tf),
               (''unc_path'', Pth (joinpath (UNC_processed self) (name tf)))])"
proof -
  have fn: "filename (Shipment tf raw) = name tf" "rawtext (Shipment tf raw) = raw"
    "filepath (Shipment tf raw) = tf"
    by (simp_all add: Shipment_def)
  show ?thesis
    unfolding shipment_row_def
    by (auto simp: Shipment_extract_Inr_iff Shipment_extract_Inl_iff fn new_shipment_data_def
          split: sum.splits)
qed

lemma shipment_row_Inl_iff:
  "shipment_row self tf raw = Inl e \<longleftrightarrow>
     e = IndexError \<and>
     (findall (reference_id_pattern (Shipment tf raw)) (name tf) = [] \<or>
      findall (job_number_pattern (Shipment tf raw)) raw = [] \<or>
      findall (distribution_order_number_p (Shipment tf raw)) raw = [] \<or>
      findall (airwaybill_pattern (Shipment tf raw)) raw = [])"
proof -
  have fn: "filename (Shipment tf raw) = name tf" "rawtext (Shipment tf raw) = raw"
    by (simp_all add: Shipment_def)
  show ?thesis
    unfolding shipment_row_def
    by (auto simp: Shipment_extract_Inr_iff Shipment_extract_Inl_iff fn new_shipment_data_def
          split: sum.splits)
qed

lemma extract_shipment_info_fst:
  "fst (extract_shipment_info self d tf raw w) =
     (case shipment_row self tf raw of Inr r \<Rightarrow> (d @ [r], True) | Inl e \<Rightarrow> (d, False))"
  by (simp add: extract_shipment_info_def Let_def split: sum.splits)

lemma extract_shipment_info_run [simp]:
  "df (snd (extract_shipment_info self d tf raw st)) = df st"
  "total_count (snd (extract_shipment_info self d tf raw st)) = total_count st"
  "processed_count (snd (extract_shipment_info self d tf raw st)) = processed_count st"
  "skipped_count (snd (extract_shipment_info self d tf raw st)) = skipped_count st"
  "warnings_count (snd (extract_shipment_info self d tf raw st)) = warnings_count st"
  "printed (snd (extract_shipment_info self d tf raw st)) = printed st"
  "renamed (snd (extract_shipment_info self d tf raw st)) = renamed st"
  by (simp_all add: extract_shipment_info_def Let_def split: sum.splits)

subsection \<open>The four ways through the body of the loop\<close>

lemma loop_body_unreadable:
  "read_result f = Inl e \<Longrightarrow> loop_body self f st = Inl e"
  by (simp add: loop_body_def)

lemma loop_body_skipped:
  assumes "read_result f = Inr raw" and "\<not> str_contains (process_criteria self) raw"
  shows "loop_body self f st =
     Inr (if move_skipped self
          then move_file_safely (rename_result f) (textfile f)
                 (joinpath (skipped self) (name (textfile f)))
                 (st\<lparr> total_count := total_count st + 1, skipped_count := skipped_count st + 1 \<rparr>)
          else st\<lparr> total_count := total_count st + 1, skipped_count := skipped_count st + 1 \<rparr>)"
  using assms by (simp add: loop_body_def)

lemma loop_body_more_details:
  assumes "read_result f = Inr raw" and "str_contains (process_criteria self) raw"
    and "warn_if_more_than_1Detail self" and "\<not> str_contains ''1Details'' raw"
  shows "loop_body self f st =
     Inr ((file_could_not_be_handled self f
            (print (''{} contains more than 1 Detail!!!!\<newline> Please add manually'',
                    [Text (name (textfile f))])
               (logging WARNING
                  (''{} contains more than 1 Detail!!!!\<newline> Please add manually'',
                   [Text (name (textfile f))])
                  (st\<lparr> total_count := total_count st + 1 \<rparr>))))
          \<lparr> warnings_count := warnings_count st + 1 \<rparr>)"
  using assms by (simp add: loop_body_def check_if_1Details_issue)

lemma loop_body_found:
  assumes "read_result f = Inr raw" and "str_contains (process_criteria self) raw"
    and "warn_if_more_than_1Detail self \<longrightarrow> str_contains ''1Details'' raw"
    and "shipment_row self (textfile f) raw = Inr r"
  shows "loop_body self f st =
     Inr (if move_processed self
          then move_file_safely (rename_result f) (textfile f)
                 (joinpath (processed self) (name (textfile f)))
                 ((snd (extract_shipment_info self (df st) (textfile f) raw
                          (st\<lparr> total_count := total_count st + 1 \<rparr>)))
                    \<lparr> df := df st @ [r], processed_count := processed_count st + 1 \<rparr>)
          else (snd (extract_shipment_info self (df st) (textfile f) raw
                       (st\<lparr> total_count := total_count st + 1 \<rparr>)))
                 \<lparr> df := df st @ [r], processed_count := processed_count st + 1 \<rparr>)"
  using assms
  by (simp add: loop_body_def check_if_1Details_simple case_prod_beta extract_shipment_info_fst)

lemma loop_body_not_found:
  assumes "read_result f = Inr raw" and "str_contains (process_criteria self) raw"
    and "warn_if_more_than_1Detail self \<longrightarrow> str_contains ''1Details'' raw"
    and "shipment_row self (textfile f) raw = Inl e"
  shows "loop_body self f st =
     Inr ((file_could_not_be_handled self f
            ((snd (extract_shipment_info self (df st) (textfile f) raw
                     (st\<lparr> total_count := total_count st + 1 \<rparr>)))
               \<lparr> df := df st \<rparr>))
          \<lparr> warnings_count := warnings_count st + 1 \<rparr>)"
  using assms
  by (simp add: loop_body_def check_if_1Details_simple case_prod_beta extract_shipment_info_fst)

subsection \<open>A file in which all four patterns match\<close>

text \<open>
  C1, as the code has it. A file that is in scope (its text contains the scope marker) and
  simple (the single-detail toggle is off, or the text contains "1Details"), and in whose
  name and text the four patterns each have a match, is counted as processed, and exactly
  one row is appended to the dataframe: its four fields are the first elements of the four
  \<^verbatim>\<open>findall\<close> results, its path is the file's path. The extractor returns the same four
  values. So a file \<^verbatim>\<open>log_00123.txt\<close> whose text contains "ZRH", "1Details",
  "Shipment: JOB456-DO789" and ", AWB001," gives reference id 00123, job number JOB456,
  distribution order number DO789 and airwaybill AWB001 when these are the first matches of
  the patterns, as in the text of the witness.
\<close>

theorem all_patterns_match_one_record:
  assumes "read_result f = Inr raw"
    and "str_contains (process_criteria self) raw"
    and "warn_if_more_than_1Detail self \<longrightarrow> str_contains ''1Details'' raw"
    and "findall (reference_id_pattern (Shipment (textfile f) raw)) (name (textfile f)) = r # rs"
    and "findall (job_number_pattern (Shipment (textfile f) raw)) raw = j # js"
    and "findall (distribution_order_number_p (Shipment (textfile f) raw)) raw = d # ds"
    and "findall (airwaybill_pattern (Shipment (textfile f) raw)) raw = a # as"
  shows "(\<exists>st'. loop_body self f st = Inr st' \<and>
            df st' = df st @
              [ [(''reference_id'', Str r),
                (''job_number'', Str j),
                (''distribution_order_number'', Str d),
                (''airwaybill'', Str a),
                (''path'', Pth (textfile f)),
                (''unc_path'', Pth (joinpath (UNC_processed self) (name (textfile f))))] ] \<and>
            total_count st' = total_count st + 1 \<and>
            processed_count st' = processed_count st + 1 \<and>
            skipped_count st' = skipped_count st \<and>
            warnings_count st' = warnings_count st) \<and>
         (\<exists>sh. Shipment_extract (Shipment (textfile f) raw) = Inr sh \<and>
            reference_id sh = Some r \<and> job_number sh = Some j \<and>
            distribution_order_number sh = Some d \<and> airwaybill sh = Some a)"
proof -
  let ?row = "[(''reference_id'', Str r),
               (''job_number'', Str j),
               (''distribution_order_number'', Str d),
               (''airwaybill'', Str a),
               (''path'', Pth (textfile f)),
               (''unc_path'', Pth (joinpath (UNC_processed self) (name (textfile f))))]"
  have row: "shipment_row self (textfile f) raw = Inr ?row"
    unfolding shipment_row_Inr_iff using assms(4-7) by blast
  have body: "\<exists>st'. loop_body self f st = Inr st' \<and> df st' = df st @ [?row] \<and>
            total_count st' = total_count st + 1 \<and>
            processed_count st' = processed_count st + 1 \<and>
            skipped_count st' = skipped_count st \<and>
            warnings_count st' = warnings_count st"
    unfolding loop_body_found [OF assms(1-3) row] by simp
  have fn: "filename (Shipment (textfile f) raw) = name (textfile f)"
    "rawtext (Shipment (textfile f) raw) = raw"
    by (simp_all add: Shipment_def)
  have "\<exists>sh. Shipment_extract (Shipment (textfile f) raw) = Inr sh \<and>
            reference_id sh = Some r \<and> job_number sh = Some j \<and>
            distribution_order_number sh = Some d \<and> airwaybill sh = Some a"
    unfolding Shipment_extract_Inr_iff fn using assms(4-7) by auto
  with body show ?thesis by blast
qed

lemma example_findall:
  "findall (reference_id_pattern (Shipment fp raw)) ''log_00123.txt'' = [''00123'']"
  "findall (job_number_pattern (Shipment fp raw)) example_text = [''JOB456'']"
  "findall (distribution_order_number_p (Shipment fp raw)) example_text = [''DO789'']"
  "findall (airwaybill_pattern (Shipment fp raw)) example_text = [''AWB001'']"
  by (simp_all add: Shipment_def example_text_def findall.simps group_def)

lemma example_markers:
  "str_contains ''ZRH'' example_text" "str_contains ''1Details'' example_text"
  by (simp_all add: example_text_def)

theorem all_patterns_match_one_record_witness:
  "(\<exists>st'. loop_body default_settings example_file fresh_run = Inr st' \<and>
      df st' =
        [ [(''reference_id'', Str ''00123''),
          (''job_number'', Str ''JOB456''),
          (''distribution_order_number'', Str ''DO789''),
          (''airwaybill'', Str ''AWB001''),
          (''path'', Pth [''source'', ''log_00123.txt'']),
          (''unc_path'', Pth [''UNC_processed'', ''log_00123.txt''])] ] \<and>
      total_count st' = 1 \<and> processed_count st' = 1 \<and>
      skipped_count st' = 0 \<and> warnings_count st' = 0) \<and>
   (\<exists>sh. Shipment_extract (Shipment [''source'', ''log_00123.txt''] example_text) = Inr sh \<and>
      reference_id sh = Some ''00123'' \<and> job_number sh = Some ''JOB456'' \<and>
      distribution_order_number sh = Some ''DO789'' \<and> airwaybill sh = Some ''AWB001'')"
proof -
  have 1: "read_result example_file = Inr example_text"
    by (simp add: example_file_def)
  have 2: "str_contains (process_criteria default_settings) example_text"
    by (simp add: default_settings_def example_markers)
  have 3: "warn_if_more_than_1Detail default_settings \<longrightarrow> str_contains ''1Details'' example_text"
    by (simp add: example_markers)
  have tf: "textfile example_file = [''source'', ''log_00123.txt'']"
    "name [''source'', ''log_00123.txt''] = ''log_00123.txt''"
    by (simp_all add: example_file_def name_def)
  have 4: "findall (reference_id_pattern (Shipment (textfile example_file) example_text))
             (name (textfile example_file)) = ''00123'' # []"
    by (simp add: tf example_findall)
  have 5: "findall (job_number_pattern (Shipment (textfile example_file) example_text))
             example_text = ''JOB456'' # []"
    by (simp add: example_findall)
  have 6: "findall (distribution_order_number_p (Shipment (textfile example_file) example_text))
             example_text = ''DO789'' # []"
    by (simp add: example_findall)
  have 7: "findall (airwaybill_pattern (Shipment (textfile example_file) example_text))
             example_text = ''AWB001'' # []"
    by (simp add: example_findall)
  show ?thesis
    using all_patterns_match_one_record [OF 1 2 3 4 5 6 7, of fresh_run]
    by (simp add: tf fresh_run_def default_settings_def joinpath_def)
qed

text \<open>
  Containing the four segments is not enough. In the text below they are separated by
  commas, so the airwaybill pattern first matches at ", 1Details,": the file is processed
  and its row has the airwaybill 1Details.
\<close>

theorem example_segments_counterexample:
  "name (textfile comma_file) = ''log_00123.txt'' \<and>
   read_result comma_file = Inr comma_text \<and>
   str_contains ''ZRH'' comma_text \<and>
   str_contains ''1Details'' comma_text \<and>
   str_contains ''Shipment: JOB456-DO789'' comma_text \<and>
   str_contains '', AWB001,'' comma_text \<and>
   map_sum id df (loop_body default_settings comma_file fresh_run) =
     Inr [ [(''reference_id'', Str ''00123''),
           (''job_number'', Str ''JOB456''),
           (''distribution_order_number'', Str ''DO789''),
           (''airwaybill'', Str ''1Details''),
           (''path'', Pth [''source'', ''log_00123.txt'']),
           (''unc_path'', Pth [''UNC_processed'', ''log_00123.txt''])] ] \<and>
   map_sum id processed_count (loop_body default_settings comma_file fresh_run) = Inr 1"
  by (simp add: comma_file_def comma_text_def default_settings_def fresh_run_def
        loop_body_def check_if_1Details_def extract_shipment_info_def shipment_row_def
        Shipment_extract_def Shipment_def new_shipment_data_def item0_def findall.simps
        group_def name_def joinpath_def logging_def Let_def)

subsection \<open>A file in which a pattern does not match\<close>

text \<open>
  C2. For a file that is in scope and simple, if at least one of the four patterns has no
  match (the reference id pattern in the file name, or the job number, distribution order
  number or airwaybill pattern in the text), then the extractor raises IndexError, the
  dataframe is left as it was (no row, not even one with the fields that did match), and
  the file is counted as a warning and as nothing else.
\<close>

theorem missing_pattern_no_record:
  assumes "read_result f = Inr raw"
    and "str_contains (process_criteria self) raw"
    and "warn_if_more_than_1Detail self \<longrightarrow> str_contains ''1Details'' raw"
    and "findall (reference_id_pattern (Shipment (textfile f) raw)) (name (textfile f)) = [] \<or>
         findall (job_number_pattern (Shipment (textfile f) raw)) raw = [] \<or>
         findall (distribution_order_number_p (Shipment (textfile f) raw)) raw = [] \<or>
         findall (airwaybill_pattern (Shipment (textfile f) raw)) raw = []"
  shows "Shipment_extract (Shipment (textfile f) raw) = Inl IndexError \<and>
         fst (extract_shipment_info self (df st) (textfile f) raw w) = (df st, False) \<and>
         (\<exists>st'. loop_body self f st = Inr st' \<and>
            df st' = df st \<and>
            total_count st' = total_count st + 1 \<and>
            warnings_count st' = warnings_count st + 1 \<and>
            processed_count st' = processed_count st \<and>
            skipped_count st' = skipped_count st)"
proof -
  have fn: "filename (Shipment (textfile f) raw) = name (textfile f)"
    "rawtext (Shipment (textfile f) raw) = raw"
    by (simp_all add: Shipment_def)
  have ex: "Shipment_extract (Shipment (textfile f) raw) = Inl IndexError"
    unfolding Shipment_extract_Inl_iff fn using assms(4) by simp
  have row: "shipment_row self (textfile f) raw = Inl IndexError"
    unfolding shipment_row_Inl_iff using assms(4) by simp
  have info: "fst (extract_shipment_info self (df st) (textfile f) raw w) = (df st, False)"
    by (simp add: extract_shipment_info_fst row)
  have "\<exists>st'. loop_body self f st = Inr st' \<and> df st' = df st \<and>
            total_count st' = total_count st + 1 \<and>
            warnings_count st' = warnings_count st + 1 \<and>
            processed_count st' = processed_count st \<and>
            skipped_count st' = skipped_count st"
    unfolding loop_body_not_found [OF assms(1-3) row] by simp
  with ex info show ?thesis by blast
qed

lemma no_order_findall:
  "findall (job_number_pattern (Shipment fp raw)) no_order_text = [''JOB456'']"
  "findall (distribution_order_number_p (Shipment fp raw)) no_order_text = []"
  "findall (airwaybill_pattern (Shipment fp raw)) no_order_text = [''AWB001'']"
  by (simp_all add: Shipment_def no_order_text_def findall.simps group_def)

lemma no_order_markers:
  "str_contains ''ZRH'' no_order_text" "str_contains ''1Details'' no_order_text"
  by (simp_all add: no_order_text_def)

theorem missing_pattern_no_record_witness:
  "findall (job_number_pattern (Shipment (textfile no_order_file) no_order_text))
     no_order_text = [''JOB456''] \<and>
   Shipment_extract (Shipment (textfile no_order_file) no_order_text) = Inl IndexError \<and>
   (\<exists>st'. loop_body default_settings no_order_file fresh_run = Inr st' \<and>
      df st' = [] \<and> total_count st' = 1 \<and> warnings_count st' = 1 \<and>
      processed_count st' = 0 \<and> skipped_count st' = 0)"
proof -
  have 1: "read_result no_order_file = Inr no_order_text"
    by (simp add: no_order_file_def)
  have 2: "str_contains (process_criteria default_settings) no_order_text"
    by (simp add: default_settings_def no_order_markers)
  have 3: "warn_if_more_than_1Detail default_settings \<longrightarrow>
           str_contains ''1Details'' no_order_text"
    by (simp add: no_order_markers)
  have 4: "findall (reference_id_pattern (Shipment (textfile no_order_file) no_order_text))
             (name (textfile no_order_file)) = [] \<or>
           findall (job_number_pattern (Shipment (textfile no_order_file) no_order_text))
             no_order_text = [] \<or>
           findall (distribution_order_number_p (Shipment (textfile no_order_file) no_order_text))
             no_order_text = [] \<or>
           findall (airwaybill_pattern (Shipment (textfile no_order_file) no_order_text))
             no_order_text = []"
    by (simp add: no_order_findall)
  show ?thesis
    using missing_pattern_no_record [OF 1 2 3 4, where st = fresh_run and w = fresh_run]
    by (simp add: fresh_run_def no_order_findall)
qed

subsection \<open>The loop\<close>

lemma loop_body_df:
  assumes "loop_body self f st = Inr st'"
  shows "df st' = df st @ file_rows self f"
proof (cases "read_result f")
  case (Inl e)
  with assms show ?thesis by (simp add: loop_body_unreadable)
next
  case (Inr raw)
  show ?thesis
  proof (cases "str_contains (process_criteria self) raw")
    case False
    with assms Inr show ?thesis
      by (auto simp: loop_body_skipped file_rows_def)
  next
    case True
    show ?thesis
    proof (cases "warn_if_more_than_1Detail self \<and> \<not> str_contains ''1Details'' raw")
      case more: True
      with assms Inr True show ?thesis
        by (auto simp: loop_body_more_details file_rows_def)
    next
      case simple: False
      then have s: "warn_if_more_than_1Detail self \<longrightarrow> str_contains ''1Details'' raw"
        by blast
      show ?thesis
      proof (cases "shipment_row self (textfile f) raw")
        case (Inl e)
        from assms show ?thesis
          unfolding loop_body_not_found [OF Inr True s Inl]
          using Inr True s Inl by (auto simp: file_rows_def)
      next
        case row: (Inr r)
        from assms show ?thesis
          unfolding loop_body_found [OF Inr True s row]
          using Inr True s row by (auto simp: file_rows_def split: if_splits)
      qed
    qed
  qed
qed

lemma loop_body_counts:
  assumes "loop_body self f st = Inr st'"
  shows "total_count st' = total_count st + 1 \<and>
         processed_count st' + skipped_count st' + warnings_count st' =
           processed_count st + skipped_count st + warnings_count st + 1 \<and>
         processed_count st \<le> processed_count st' \<and>
         skipped_count st \<le> skipped_count st' \<and>
         warnings_count st \<le> warnings_count st'"
proof (cases "read_result f")
  case (Inl e)
  with assms show ?thesis by (simp add: loop_body_unreadable)
next
  case (Inr raw)
  show ?thesis
  proof (cases "str_contains (process_criteria self) raw")
    case False
    with assms Inr show ?thesis
      by (auto simp: loop_body_skipped)
  next
    case True
    show ?thesis
    proof (cases "warn_if_more_than_1Detail self \<and> \<not> str_contains ''1Details'' raw")
      case more: True
      with assms Inr True show ?thesis
        by (auto simp: loop_body_more_details)
    next
      case simple: False
      then have s: "warn_if_more_than_1Detail self \<longrightarrow> str_contains ''1Details'' raw"
        by blast
      show ?thesis
      proof (cases "shipment_row self (textfile f) raw")
        case (Inl e)
        from assms show ?thesis
          unfolding loop_body_not_found [OF Inr True s Inl] by auto
      next
        case row: (Inr r)
        from assms show ?thesis
          unfolding loop_body_found [OF Inr True s row] by (auto split: if_splits)
      qed
    qed
  qed
qed

lemma loop_body_readable:
  "loop_body self f st = Inr st' \<Longrightarrow> \<exists>raw. read_result f = Inr raw"
  by (cases "read_result f") (simp_all add: loop_body_unreadable)

lemma loop_body_returns:
  "read_result f = Inr raw \<Longrightarrow> \<exists>st'. loop_body self f st = Inr st'"
  by (simp add: loop_body_def Let_def split: prod.splits bool.splits)

lemma loop_df:
  "loop self files st = Inr st' \<Longrightarrow> df st' = df st @ concat (map (file_rows self) files)"
proof (induction files arbitrary: st)
  case Nil
  then show ?case by simp
next
  case (Cons f fs)
  then obtain st1 where 1: "loop_body self f st = Inr st1" and 2: "loop self fs st1 = Inr st'"
    by (auto split: sum.splits)
  from Cons.IH [OF 2] loop_body_df [OF 1] show ?case by simp
qed

lemma loop_counts:
  "loop self files st = Inr st' \<Longrightarrow>
     total_count st' = total_count st + length files \<and>
     processed_count st' + skipped_count st' + warnings_count st' =
       processed_count st + skipped_count st + warnings_count st + length files"
proof (induction files arbitrary: st)
  case Nil
  then show ?case by simp
next
  case (Cons f fs)
  then obtain st1 where 1: "loop_body self f st = Inr st1" and 2: "loop self fs st1 = Inr st'"
    by (auto split: sum.splits)
  from Cons.IH [OF 2] loop_body_counts [OF 1] show ?case by simp
qed

lemma loop_Inr_iff:
  "(\<exists>st'. loop self files st = Inr st') \<longleftrightarrow> (\<forall>f\<in>set files. \<exists>raw. read_result f = Inr raw)"
proof (induction files arbitrary: st)
  case Nil
  then show ?case by simp
next
  case (Cons f fs)
  show ?case
  proof (cases "read_result f")
    case (Inl e)
    then show ?thesis by (simp add: loop_body_unreadable)
  next
    case (Inr raw)
    then obtain st1 where 1: "loop_body self f st = Inr st1"
      using loop_body_returns by blast
    with Cons.IH [of st1] Inr show ?thesis by simp
  qed
qed

lemma loop_unreadable:
  "read_result f = Inl e \<Longrightarrow> \<forall>g\<in>set fs. \<exists>raw. read_result g = Inr raw \<Longrightarrow>
     loop self (fs @ f # gs) st = Inl e"
proof (induction fs arbitrary: st)
  case Nil
  then show ?case by (simp add: loop_body_unreadable)
next
  case (Cons g fs)
  then obtain raw where "read_result g = Inr raw" by auto
  then obtain st1 where "loop_body self g st = Inr st1"
    using loop_body_returns by blast
  with Cons show ?case by simp
qed

lemma extract_information_Inr:
  assumes "extract_information self files w = Inr st"
  obtains st0 where
    "loop self files
       \<lparr> logged = logged w, printed = printed w, renamed = renamed w,
         df = [], total_count = 0, processed_count = 0, skipped_count = 0,
         warnings_count = 0 \<rparr> = Inr st0"
    and "df st = df st0" and "total_count st = total_count st0"
    and "processed_count st = processed_count st0"
    and "skipped_count st = skipped_count st0"
    and "warnings_count st = warnings_count st0"
    and "renamed st = renamed st0"
  using assms unfolding extract_information_def
  by (auto simp: Let_def split: sum.splits)

lemma extract_information_df:
  assumes "extract_information self files w = Inr st"
  shows "df st = concat (map (file_rows self) files)"
proof -
  from assms obtain st0 where
    l: "loop self files
       \<lparr> logged = logged w, printed = printed w, renamed = renamed w,
         df = [], total_count = 0, processed_count = 0, skipped_count = 0,
         warnings_count = 0 \<rparr> = Inr st0"
    and d: "df st = df st0"
    by (rule extract_information_Inr)
  from loop_df [OF l] d show ?thesis by simp
qed

subsection \<open>The counters\<close>

text \<open>
  C10. When the loop of \<^verbatim>\<open>extract_information\<close> has run through all the files, the total
  counter is the number of files enumerated and equals the sum of the processed, skipped
  and warnings counters. Each pass of the body that returns adds one to the total counter
  and one to exactly one of the three other counters, and leaves the other two as they
  were.
\<close>

theorem counters_partition_files:
  "(extract_information self files w = Inr st \<longrightarrow>
      total_count st = length files \<and>
      total_count st = processed_count st + skipped_count st + warnings_count st) \<and>
   (loop_body self f st0 = Inr st1 \<longrightarrow>
      total_count st1 = total_count st0 + 1 \<and>
      (processed_count st1 = processed_count st0 + 1 \<and>
         skipped_count st1 = skipped_count st0 \<and> warnings_count st1 = warnings_count st0 \<or>
       processed_count st1 = processed_count st0 \<and>
         skipped_count st1 = skipped_count st0 + 1 \<and> warnings_count st1 = warnings_count st0 \<or>
       processed_count st1 = processed_count st0 \<and>
         skipped_count st1 = skipped_count st0 \<and> warnings_count st1 = warnings_count st0 + 1))"
proof (intro conjI impI)
  assume a: "extract_information self files w = Inr st"
  then obtain stl where
    l: "loop self files
       \<lparr> logged = logged w, printed = printed w, renamed = renamed w,
         df = [], total_count = 0, processed_count = 0, skipped_count = 0,
         warnings_count = 0 \<rparr> = Inr stl"
    and e: "total_count st = total_count stl" "processed_count st = processed_count stl"
      "skipped_count st = skipped_count stl" "warnings_count st = warnings_count stl"
    by (rule extract_information_Inr)
  from loop_counts [OF l] e show "total_count st = length files" by simp
  from loop_counts [OF l] e
  show "total_count st = processed_count st + skipped_count st + warnings_count st" by simp
next
  assume b: "loop_body self f st0 = Inr st1"
  from loop_body_counts [OF b] show "total_count st1 = total_count st0 + 1" by simp
  from loop_body_counts [OF b]
  show "processed_count st1 = processed_count st0 + 1 \<and>
         skipped_count st1 = skipped_count st0 \<and> warnings_count st1 = warnings_count st0 \<or>
       processed_count st1 = processed_count st0 \<and>
         skipped_count st1 = skipped_count st0 + 1 \<and> warnings_count st1 = warnings_count st0 \<or>
       processed_count st1 = processed_count st0 \<and>
         skipped_count st1 = skipped_count st0 \<and> warnings_count st1 = warnings_count st0 + 1"
    by arith
qed

lemma three_files_run:
  "\<exists>st. extract_information default_settings three_files no_effects = Inr st \<and>
        processed_count st = 1 \<and> skipped_count st = 1 \<and> warnings_count st = 1"
  by (simp add: extract_information_def three_files_def example_file_def other_site_file_def
        no_order_file_def example_text_def no_order_text_def default_settings_def no_effects_def
        loop_body_def check_if_1Details_def extract_shipment_info_def shipment_row_def
        Shipment_extract_def Shipment_def new_shipment_data_def item0_def findall.simps
        group_def name_def joinpath_def file_could_not_be_handled_def move_file_safely_def
        logging_def print_def Let_def)

theorem counters_partition_files_witness:
  "(\<exists>st. extract_information default_settings three_files no_effects = Inr st \<and>
         processed_count st = 1 \<and> skipped_count st = 1 \<and> warnings_count st = 1 \<and>
         total_count st = 3) \<and>
   (\<exists>st1. loop_body default_settings example_file fresh_run = Inr st1 \<and>
         total_count st1 = 1 \<and>
         (processed_count st1 = 1 \<and> skipped_count st1 = 0 \<and> warnings_count st1 = 0 \<or>
          processed_count st1 = 0 \<and> skipped_count st1 = 1 \<and> warnings_count st1 = 0 \<or>
          processed_count st1 = 0 \<and> skipped_count st1 = 0 \<and> warnings_count st1 = 1))"
proof -
  from three_files_run obtain st where
    st: "extract_information default_settings three_files no_effects = Inr st"
    and c: "processed_count st = 1" "skipped_count st = 1" "warnings_count st = 1"
    by blast
  have "read_result example_file = Inr example_text"
    by (simp add: example_file_def)
  then obtain st1 where st1: "loop_body default_settings example_file fresh_run = Inr st1"
    using loop_body_returns by blast
  note inst = counters_partition_files
    [of default_settings three_files no_effects st example_file fresh_run st1]
  from inst st
  have "total_count st = processed_count st + skipped_count st + warnings_count st"
    by blast
  with st c have 1: "\<exists>st. extract_information default_settings three_files no_effects = Inr st \<and>
         processed_count st = 1 \<and> skipped_count st = 1 \<and> warnings_count st = 1 \<and>
         total_count st = 3"
    by simp
  from inst st1
  have "total_count st1 = total_count fresh_run + 1 \<and>
      (processed_count st1 = processed_count fresh_run + 1 \<and>
         skipped_count st1 = skipped_count fresh_run \<and>
         warnings_count st1 = warnings_count fresh_run \<or>
       processed_count st1 = processed_count fresh_run \<and>
         skipped_count st1 = skipped_count fresh_run + 1 \<and>
         warnings_count st1 = warnings_count fresh_run \<or>
       processed_count st1 = processed_count fresh_run \<and>
         skipped_count st1 = skipped_count fresh_run \<and>
         warnings_count st1 = warnings_count fresh_run + 1)"
    by blast
  with st1 have 2: "\<exists>st1. loop_body default_settings example_file fresh_run = Inr st1 \<and>
         total_count st1 = 1 \<and>
         (processed_count st1 = 1 \<and> skipped_count st1 = 0 \<and> warnings_count st1 = 0 \<or>
          processed_count st1 = 0 \<and> skipped_count st1 = 1 \<and> warnings_count st1 = 0 \<or>
          processed_count st1 = 0 \<and> skipped_count st1 = 0 \<and> warnings_count st1 = 1)"
    by (simp add: fresh_run_def)
  from 1 2 show ?thesis by blast
qed

subsection \<open>Files out of scope\<close>

lemma file_rows_in_scope:
  assumes "row \<in> set (file_rows self g)"
  shows "\<exists>t. read_result g = Inr t \<and> str_contains (process_criteria self) t \<and>
             (warn_if_more_than_1Detail self \<longrightarrow> str_contains ''1Details'' t) \<and>
             shipment_row self (textfile g) t = Inr row \<and>
             map_of row ''path'' = Some (Pth (textfile g))"
proof (cases "read_result g")
  case (Inl e)
  with assms show ?thesis by (simp add: file_rows_def)
next
  case (Inr t)
  have c: "str_contains (process_criteria self) t \<and>
      (warn_if_more_than_1Detail self \<longrightarrow> str_contains ''1Details'' t)"
  proof (rule ccontr)
    assume "\<not> ?thesis"
    with Inr have "file_rows self g = []" by (auto simp: file_rows_def)
    with assms show False by simp
  qed
  then have s: "str_contains (process_criteria self) t"
    "warn_if_more_than_1Detail self \<longrightarrow> str_contains ''1Details'' t"
    by blast+
  from assms Inr c
  have r: "row \<in> set (case shipment_row self (textfile g) t of Inr r \<Rightarrow> [r] | Inl e \<Rightarrow> [])"
    by (simp add: file_rows_def)
  from r have r': "shipment_row self (textfile g) t = Inr row"
    by (cases "shipment_row self (textfile g) t") auto
  then have "map_of row ''path'' = Some (Pth (textfile g))"
    unfolding shipment_row_Inr_iff by auto
  with Inr s r' show ?thesis by blast
qed

lemma report_rows_origin:
  assumes "extract_information self files w = Inr st" and "row \<in> set (df st)"
  shows "\<exists>g\<in>set files. \<exists>t. read_result g = Inr t \<and>
             str_contains (process_criteria self) t \<and>
             (warn_if_more_than_1Detail self \<longrightarrow> str_contains ''1Details'' t) \<and>
             shipment_row self (textfile g) t = Inr row \<and>
             map_of row ''path'' = Some (Pth (textfile g))"
proof -
  from assms have "row \<in> set (concat (map (file_rows self) files))"
    by (simp add: extract_information_df)
  then obtain g where "g \<in> set files" "row \<in> set (file_rows self g)"
    by auto
  with file_rows_in_scope show ?thesis by blast
qed

text \<open>
  C4, as the code has it. A file whose text does not contain the scope marker is counted
  as skipped and as nothing else, and the dataframe is left as it was, whatever else the
  text contains. The file is renamed into the skipped directory exactly when the toggle
  \<^verbatim>\<open>move_skipped\<close> is on and \<^verbatim>\<open>os.rename\<close> succeeds; with the toggle on the move is
  tried and logged, with the toggle off nothing is logged or moved. The report of a whole
  run is made of the rows of its files, in order, and such a file has none: every row
  comes from a file whose text contains the scope marker, and carries the path of that
  file.
\<close>

theorem out_of_scope_skipped:
  assumes "read_result f = Inr raw" and "\<not> str_contains (process_criteria self) raw"
  shows "(\<exists>st'. loop_body self f st = Inr st' \<and>
            df st' = df st \<and>
            total_count st' = total_count st + 1 \<and>
            skipped_count st' = skipped_count st + 1 \<and>
            processed_count st' = processed_count st \<and>
            warnings_count st' = warnings_count st \<and>
            renamed st' =
              (if move_skipped self \<and> rename_result f = None
               then renamed st @
                      [(textfile f, joinpath (skipped self) (name (textfile f)))]
               else renamed st) \<and>
            (\<not> move_skipped self \<longrightarrow> logged st' = logged st) \<and>
            (move_skipped self \<longrightarrow>
               (DEBUG, ''File is moved: {} -> {}'',
                [File (textfile f),
                 File (joinpath (skipped self) (name (textfile f)))]) \<in> set (logged st'))) \<and>
         file_rows self f = [] \<and>
         (\<forall>files w stn.
            extract_information self files w = Inr stn \<longrightarrow>
            df stn = concat (map (file_rows self) files)) \<and>
         (\<forall>files w stn row.
            extract_information self files w = Inr stn \<and> row \<in> set (df stn) \<longrightarrow>
            (\<exists>g\<in>set files. \<exists>t. read_result g = Inr t \<and>
               str_contains (process_criteria self) t \<and>
               map_of row ''path'' = Some (Pth (textfile g))))"
proof -
  have 1: "\<exists>st'. loop_body self f st = Inr st' \<and>
            df st' = df st \<and>
            total_count st' = total_count st + 1 \<and>
            skipped_count st' = skipped_count st + 1 \<and>
            processed_count st' = processed_count st \<and>
            warnings_count st' = warnings_count st \<and>
            renamed st' =
              (if move_skipped self \<and> rename_result f = None
               then renamed st @
                      [(textfile f, joinpath (skipped self) (name (textfile f)))]
               else renamed st) \<and>
            (\<not> move_skipped self \<longrightarrow> logged st' = logged st) \<and>
            (move_skipped self \<longrightarrow>
               (DEBUG, ''File is moved: {} -> {}'',
                [File (textfile f),
                 File (joinpath (skipped self) (name (textfile f)))]) \<in> set (logged st'))"
    unfolding loop_body_skipped [OF assms]
    by (simp add: move_file_safely_renamed move_file_safely_logged)
  have 2: "file_rows self f = []"
    using assms by (simp add: file_rows_def)
  have 4: "\<forall>files w stn.
            extract_information self files w = Inr stn \<longrightarrow>
            df stn = concat (map (file_rows self) files)"
    using extract_information_df by blast
  have 3: "\<forall>files w stn row.
            extract_information self files w = Inr stn \<and> row \<in> set (df stn) \<longrightarrow>
            (\<exists>g\<in>set files. \<exists>t. read_result g = Inr t \<and>
               str_contains (process_criteria self) t \<and>
               map_of row ''path'' = Some (Pth (textfile g)))"
    using report_rows_origin by blast
  from 1 2 3 4 show ?thesis by blast
qed

lemma locked_file_facts:
  "read_result locked_file = Inr ''GVA 1Details Shipment: JOB458-DO791, AWB003,''"
  "\<not> str_contains (process_criteria move_skipped_settings)
       ''GVA 1Details Shipment: JOB458-DO791, AWB003,''"
  "move_skipped move_skipped_settings"
  "rename_result locked_file = Some PermissionError"
  by (simp_all add: locked_file_def move_skipped_settings_def default_settings_def)

theorem out_of_scope_skipped_witness:
  "\<exists>st'. loop_body move_skipped_settings locked_file fresh_run = Inr st' \<and>
         df st' = [] \<and> total_count st' = 1 \<and> skipped_count st' = 1 \<and>
         processed_count st' = 0 \<and> warnings_count st' = 0 \<and> renamed st' = []"
proof -
  from out_of_scope_skipped [OF locked_file_facts(1,2), of fresh_run, THEN conjunct1]
  obtain st' where st': "loop_body move_skipped_settings locked_file fresh_run = Inr st'"
    and "df st' = df fresh_run"
    and "total_count st' = total_count fresh_run + 1"
    and "skipped_count st' = skipped_count fresh_run + 1"
    and "processed_count st' = processed_count fresh_run"
    and "warnings_count st' = warnings_count fresh_run"
    and "renamed st' =
          (if move_skipped move_skipped_settings \<and> rename_result locked_file = None
           then renamed fresh_run @
                  [(textfile locked_file,
                    joinpath (skipped move_skipped_settings) (name (textfile locked_file)))]
           else renamed fresh_run)"
    by blast
  then have "df st' = [] \<and> total_count st' = 1 \<and> skipped_count st' = 1 \<and>
         processed_count st' = 0 \<and> warnings_count st' = 0 \<and> renamed st' = []"
    by (simp add: locked_file_facts fresh_run_def)
  with st' show ?thesis by blast
qed

text \<open>
  The toggle alone does not decide whether the file is moved: below, the toggle
  \<^verbatim>\<open>move_skipped\<close> is on and the file is out of scope, but the file is in use, so it is
  counted as skipped and stays where it is.
\<close>

theorem skipped_file_not_moved_counterexample:
  "move_skipped move_skipped_settings \<and>
   \<not> str_contains (process_criteria move_skipped_settings)
       ''GVA 1Details Shipment: JOB458-DO791, AWB003,'' \<and>
   loop_body move_skipped_settings locked_file fresh_run =
     Inr \<lparr> logged =
             [(DEBUG, ''File is moved: {} -> {}'',
               [File [''source'', ''log_00125.txt''], File [''skipped'', ''log_00125.txt''] ]),
              (ERROR, ''File in use. File could not be moved. File:{}'',
               [Text ''log_00125.txt''])],
           printed = [], renamed = [], df = [],
           total_count = 1, processed_count = 0, skipped_count = 1, warnings_count = 0 \<rparr>"
  by (simp add: loop_body_def locked_file_def move_skipped_settings_def default_settings_def
        fresh_run_def move_file_safely_def logging_def joinpath_def name_def)

subsection \<open>Faults that are not handled\<close>

text \<open>
  C7. A fault of the read is not caught: when \<^verbatim>\<open>open\<close> or \<^verbatim>\<open>read\<close> raises for a file, the
  exception leaves the loop and \<^verbatim>\<open>extract_information\<close>, and the files after it are not
  looked at. Once the text is read, the body of the loop always returns: the faults of the
  extraction and of the move are caught.
\<close>

theorem unreadable_file_aborts_run:
  "extract_information self
     (\<lparr> textfile = tf, read_result = Inl e, rename_result = r \<rparr> # fs) w = Inl e \<and>
   (\<exists>st'. loop_body self \<lparr> textfile = tf, read_result = Inr raw, rename_result = r \<rparr> st
            = Inr st')"
proof -
  have "loop_body self \<lparr> textfile = tf, read_result = Inl e, rename_result = r \<rparr> st0 = Inl e"
    for st0
    by (simp add: loop_body_unreadable)
  then have 1: "extract_information self
     (\<lparr> textfile = tf, read_result = Inl e, rename_result = r \<rparr> # fs) w = Inl e"
    by (simp add: extract_information_def)
  have 2: "\<exists>st'. loop_body self \<lparr> textfile = tf, read_result = Inr raw, rename_result = r \<rparr> st
            = Inr st'"
    by (rule loop_body_returns) simp
  from 1 2 show ?thesis by blast
qed

text \<open>
  C8. When \<^verbatim>\<open>os.rename\<close> raises PermissionError or FileNotFoundError, an error is logged.
  When it raises another error, the last \<^verbatim>\<open>except\<close> clause builds a message and drops it:
  the log holds the debug entry written before the rename and no entry for the failure. In
  all three cases nothing is renamed and the dataframe and the counters are untouched.
\<close>

theorem other_move_error_not_logged:
  "logged (move_file_safely (Some OSError) p d st) =
     logged st @ [(DEBUG, ''File is moved: {} -> {}'', [File p, File d])] \<and>
   logged (move_file_safely (Some PermissionError) p d st) =
     logged st @ [(DEBUG, ''File is moved: {} -> {}'', [File p, File d]),
                  (ERROR, ''File in use. File could not be moved. File:{}'', [Text (name p)])] \<and>
   logged (move_file_safely (Some FileNotFoundError) p d st) =
     logged st @ [(DEBUG, ''File is moved: {} -> {}'', [File p, File d]),
                  (ERROR, ''File was not found. {}'', [Text (name p)])] \<and>
   renamed (move_file_safely (Some e) p d st) = renamed st \<and>
   df (move_file_safely (Some e) p d st) = df st \<and>
   total_count (move_file_safely (Some e) p d st) = total_count st \<and>
   processed_count (move_file_safely (Some e) p d st) = processed_count st \<and>
   skipped_count (move_file_safely (Some e) p d st) = skipped_count st \<and>
   warnings_count (move_file_safely (Some e) p d st) = warnings_count st"
  by (simp add: move_file_safely_logged move_file_safely_renamed)

subsection \<open>Files with more than one detail\<close>

text \<open>
  C5. For a file that is in scope: when the toggle \<^verbatim>\<open>warn_if_more_than_1Detail\<close> is on and
  the text does not contain "1Details", the file is counted as a warning and as nothing
  else and the dataframe is left as it was, whatever the four patterns would find. The
  state after the file is the state before it with the warning logged and printed, the
  move to the warning directory (if that toggle is on) and the two counters incremented:
  \<^verbatim>\<open>extract_shipment_info\<close> is not called, and none of its log entries is written. The
  report of a whole run is made of the rows of its files, and such a file has none. When the
  toggle is off, \<^verbatim>\<open>_check_if_1Details\<close> returns False without any effect, whatever the text
  contains, and the file goes to the extraction: it adds its row and is counted as
  processed when the extraction succeeds, and is counted as a warning when it fails.
\<close>

theorem more_details_warning:
  assumes "read_result f = Inr raw" and "str_contains (process_criteria self) raw"
  shows "(warn_if_more_than_1Detail self \<and> \<not> str_contains ''1Details'' raw \<longrightarrow>
            loop_body self f st =
              Inr ((file_could_not_be_handled self f
                     (print (''{} contains more than 1 Detail!!!!\<newline> Please add manually'',
                             [Text (name (textfile f))])
                        (logging WARNING
                           (''{} contains more than 1 Detail!!!!\<newline> Please add manually'',
                            [Text (name (textfile f))])
                           (st\<lparr> total_count := total_count st + 1 \<rparr>))))
                   \<lparr> warnings_count := warnings_count st + 1 \<rparr>) \<and>
            (\<exists>st'. loop_body self f st = Inr st' \<and>
               df st' = df st \<and>
               total_count st' = total_count st + 1 \<and>
               warnings_count st' = warnings_count st + 1 \<and>
               processed_count st' = processed_count st \<and>
               skipped_count st' = skipped_count st \<and>
               (\<forall>entry \<in> set (logged st') - set (logged st). fst entry \<noteq> DEBUG \<or>
                  fst (snd entry) = ''File is moved: {} -> {}'')) \<and>
            file_rows self f = [] \<and>
            (\<forall>files w0 stn.
               extract_information self files w0 = Inr stn \<longrightarrow>
               df stn = concat (map (file_rows self) files))) \<and>
         (\<not> warn_if_more_than_1Detail self \<longrightarrow>
            check_if_1Details self (textfile f) raw w = (False, w) \<and>
            (\<forall>r. shipment_row self (textfile f) raw = Inr r \<longrightarrow>
               (\<exists>st'. loop_body self f st = Inr st' \<and> df st' = df st @ [r] \<and>
                  processed_count st' = processed_count st + 1 \<and>
                  warnings_count st' = warnings_count st \<and>
                  skipped_count st' = skipped_count st)) \<and>
            (\<forall>e. shipment_row self (textfile f) raw = Inl e \<longrightarrow>
               (\<exists>st'. loop_body self f st = Inr st' \<and> df st' = df st \<and>
                  processed_count st' = processed_count st \<and>
                  warnings_count st' = warnings_count st + 1 \<and>
                  skipped_count st' = skipped_count st)))"
proof (intro conjI impI)
  assume a: "warn_if_more_than_1Detail self \<and> \<not> str_contains ''1Details'' raw"
  then have w: "warn_if_more_than_1Detail self" and n: "\<not> str_contains ''1Details'' raw"
    by simp_all
  note eq = loop_body_more_details [OF assms w n, of st]
  show "loop_body self f st =
              Inr ((file_could_not_be_handled self f
                     (print (''{} contains more than 1 Detail!!!!\<newline> Please add manually'',
                             [Text (name (textfile f))])
                        (logging WARNING
                           (''{} contains more than 1 Detail!!!!\<newline> Please add manually'',
                            [Text (name (textfile f))])
                           (st\<lparr> total_count := total_count st + 1 \<rparr>))))
                   \<lparr> warnings_count := warnings_count st + 1 \<rparr>)"
    by (rule eq)
  show "\<exists>st'. loop_body self f st = Inr st' \<and>
               df st' = df st \<and>
               total_count st' = total_count st + 1 \<and>
               warnings_count st' = warnings_count st + 1 \<and>
               processed_count st' = processed_count st \<and>
               skipped_count st' = skipped_count st \<and>
               (\<forall>entry \<in> set (logged st') - set (logged st). fst entry \<noteq> DEBUG \<or>
                  fst (snd entry) = ''File is moved: {} -> {}'')"
    unfolding eq
    by (auto simp: file_could_not_be_handled_def move_file_safely_logged)
  show "file_rows self f = []"
    using assms a by (simp add: file_rows_def)
  show "\<forall>files w0 stn.
               extract_information self files w0 = Inr stn \<longrightarrow>
               df stn = concat (map (file_rows self) files)"
    using extract_information_df by blast
next
  assume off: "\<not> warn_if_more_than_1Detail self"
  then have s: "warn_if_more_than_1Detail self \<longrightarrow> str_contains ''1Details'' raw"
    by simp
  show "check_if_1Details self (textfile f) raw w = (False, w)"
    by (rule check_if_1Details_simple) (rule s)
  show "\<forall>r. shipment_row self (textfile f) raw = Inr r \<longrightarrow>
               (\<exists>st'. loop_body self f st = Inr st' \<and> df st' = df st @ [r] \<and>
                  processed_count st' = processed_count st + 1 \<and>
                  warnings_count st' = warnings_count st \<and>
                  skipped_count st' = skipped_count st)"
  proof (intro allI impI)
    fix r assume r: "shipment_row self (textfile f) raw = Inr r"
    show "\<exists>st'. loop_body self f st = Inr st' \<and> df st' = df st @ [r] \<and>
                  processed_count st' = processed_count st + 1 \<and>
                  warnings_count st' = warnings_count st \<and>
                  skipped_count st' = skipped_count st"
      unfolding loop_body_found [OF assms s r] by simp
  qed
  show "\<forall>e. shipment_row self (textfile f) raw = Inl e \<longrightarrow>
               (\<exists>st'. loop_body self f st = Inr st' \<and> df st' = df st \<and>
                  processed_count st' = processed_count st \<and>
                  warnings_count st' = warnings_count st + 1 \<and>
                  skipped_count st' = skipped_count st)"
  proof (intro allI impI)
    fix e assume e: "shipment_row self (textfile f) raw = Inl e"
    show "\<exists>st'. loop_body self f st = Inr st' \<and> df st' = df st \<and>
                  processed_count st' = processed_count st \<and>
                  warnings_count st' = warnings_count st + 1 \<and>
                  skipped_count st' = skipped_count st"
      unfolding loop_body_not_found [OF assms s e] by simp
  qed
qed

lemma two_details_facts:
  "read_result two_details_file = Inr two_details_text"
  "str_contains (process_criteria default_settings) two_details_text"
  "str_contains (process_criteria no_warn_settings) two_details_text"
  "\<not> str_contains ''1Details'' two_details_text"
  "warn_if_more_than_1Detail default_settings"
  "\<not> warn_if_more_than_1Detail no_warn_settings"
  by (simp_all add: two_details_file_def two_details_text_def default_settings_def
        no_warn_settings_def)

lemma two_details_row:
  "shipment_row no_warn_settings (textfile two_details_file) two_details_text =
     Inr [(''reference_id'', Str ''00126''),
          (''job_number'', Str ''JOB456''),
          (''distribution_order_number'', Str ''DO789''),
          (''airwaybill'', Str ''AWB001''),
          (''path'', Pth [''source'', ''log_00126.txt'']),
          (''unc_path'', Pth [''UNC_processed'', ''log_00126.txt''])]"
  by (simp add: shipment_row_def Shipment_extract_def Shipment_def new_shipment_data_def
        item0_def findall.simps group_def name_def joinpath_def two_details_file_def
        two_details_text_def no_warn_settings_def default_settings_def)

theorem more_details_warning_witness:
  "(\<exists>st'. loop_body default_settings two_details_file fresh_run = Inr st' \<and>
      df st' = [] \<and> total_count st' = 1 \<and> warnings_count st' = 1 \<and>
      processed_count st' = 0 \<and> skipped_count st' = 0) \<and>
   (\<exists>st'. loop_body no_warn_settings two_details_file fresh_run = Inr st' \<and>
      df st' =
        [ [(''reference_id'', Str ''00126''),
          (''job_number'', Str ''JOB456''),
          (''distribution_order_number'', Str ''DO789''),
          (''airwaybill'', Str ''AWB001''),
          (''path'', Pth [''source'', ''log_00126.txt'']),
          (''unc_path'', Pth [''UNC_processed'', ''log_00126.txt''])] ] \<and>
      processed_count st' = 1 \<and> warnings_count st' = 0 \<and> skipped_count st' = 0)"
proof -
  note on = more_details_warning
    [OF two_details_facts(1) two_details_facts(2), of fresh_run fresh_run]
  note off = more_details_warning
    [OF two_details_facts(1) two_details_facts(3), of fresh_run fresh_run]
  from on two_details_facts(4,5)
  have 1: "\<exists>st'. loop_body default_settings two_details_file fresh_run = Inr st' \<and>
      df st' = df fresh_run \<and> total_count st' = total_count fresh_run + 1 \<and>
      warnings_count st' = warnings_count fresh_run + 1 \<and>
      processed_count st' = processed_count fresh_run \<and>
      skipped_count st' = skipped_count fresh_run"
    by blast
  from off two_details_facts(6) two_details_row
  have 2: "\<exists>st'. loop_body no_warn_settings two_details_file fresh_run = Inr st' \<and>
      df st' = df fresh_run @
        [ [(''reference_id'', Str ''00126''),
          (''job_number'', Str ''JOB456''),
          (''distribution_order_number'', Str ''DO789''),
          (''airwaybill'', Str ''AWB001''),
          (''path'', Pth [''source'', ''log_00126.txt'']),
          (''unc_path'', Pth [''UNC_processed'', ''log_00126.txt''])] ] \<and>
      processed_count st' = processed_count fresh_run + 1 \<and>
      warnings_count st' = warnings_count fresh_run \<and>
      skipped_count st' = skipped_count fresh_run"
    by blast
  from 1 2 show ?thesis by (simp add: fresh_run_def)
qed

subsection \<open>The export\<close>

lemma drop_duplicates_seen_subseq:
  "subseq (drop_duplicates_seen cols seen rs) rs"
  by (induction rs arbitrary: seen) auto

lemma drop_duplicates_seen_keys:
  "k \<in> set seen \<Longrightarrow> k \<notin> set (map (row_key cols) (drop_duplicates_seen cols seen rs))"
proof (induction rs arbitrary: seen)
  case Nil
  then show ?case by simp
next
  case (Cons r rs)
  show ?case
  proof (cases "row_key cols r \<in> set seen")
    case True
    with Cons.IH [OF Cons.prems] show ?thesis by simp
  next
    case False
    with Cons.prems have "k \<noteq> row_key cols r" by blast
    moreover from Cons.prems have "k \<in> set (row_key cols r # seen)" by simp
    note Cons.IH [OF this]
    ultimately show ?thesis using False by simp
  qed
qed

lemma drop_duplicates_seen_distinct:
  "distinct (map (row_key cols) (drop_duplicates_seen cols seen rs))"
proof (induction rs arbitrary: seen)
  case Nil
  then show ?case by simp
next
  case (Cons r rs)
  show ?case
  proof (cases "row_key cols r \<in> set seen")
    case True
    with Cons.IH show ?thesis by simp
  next
    case False
    from drop_duplicates_seen_keys [of "row_key cols r" "row_key cols r # seen" cols rs]
    have "row_key cols r \<notin> set (map (row_key cols)
            (drop_duplicates_seen cols (row_key cols r # seen) rs))"
      by auto
    with False Cons.IH show ?thesis by simp
  qed
qed

lemma drop_duplicates_seen_find:
  "List.find (\<lambda>r. row_key cols r = k) (drop_duplicates_seen cols seen rs) =
     (if k \<in> set seen then None else List.find (\<lambda>r. row_key cols r = k) rs)"
proof (induction rs arbitrary: seen)
  case Nil
  then show ?case by simp
next
  case (Cons r rs)
  show ?case
  proof (cases "row_key cols r \<in> set seen")
    case True
    with Cons.IH [of seen] show ?thesis by auto
  next
    case False
    with Cons.IH [of "row_key cols r # seen"] show ?thesis by auto
  qed
qed

text \<open>
  C6. The exported table is the dataframe with some rows left out, in the same order; no
  two of its rows have the same distribution order number and airwaybill; and for every
  such pair, the row of the exported table with that pair is the first row of the
  dataframe with that pair (and there is none when the dataframe has none). So the export
  keeps, for each pair, exactly the first row in arrival order, and drops every later row
  with the same pair, whatever its other fields are.
\<close>

theorem export_keeps_first_per_pair:
  "subseq (fst (export_dataframe st)) (df st) \<and>
   distinct (map export_key (fst (export_dataframe st))) \<and>
   List.find (\<lambda>r. export_key r = k) (fst (export_dataframe st)) =
     List.find (\<lambda>r. export_key r = k) (df st)"
  unfolding export_key_def
  by (simp add: export_dataframe_def Let_def drop_duplicates_def drop_duplicates_seen_subseq
        drop_duplicates_seen_distinct drop_duplicates_seen_find)

lemma duplicate_run_export:
  "fst (export_dataframe duplicate_run) =
     [report_row ''1'' ''J1'' ''DO1'' ''AWB1'', report_row ''3'' ''J2'' ''DO2'' ''AWB1'']"
  by (simp add: export_dataframe_def Let_def drop_duplicates_def duplicate_run_def
        fresh_run_def report_row_def row_key_def)

theorem export_keeps_first_per_pair_witness:
  "export_key (report_row ''2'' ''J1'' ''DO1'' ''AWB1'') =
     export_key (report_row ''1'' ''J1'' ''DO1'' ''AWB1'') \<and>
   fst (export_dataframe duplicate_run) =
     [report_row ''1'' ''J1'' ''DO1'' ''AWB1'', report_row ''3'' ''J2'' ''DO2'' ''AWB1''] \<and>
   List.find (\<lambda>r. export_key r = export_key (report_row ''2'' ''J1'' ''DO1'' ''AWB1''))
     (fst (export_dataframe duplicate_run)) = Some (report_row ''1'' ''J1'' ''DO1'' ''AWB1'')"
proof -
  have k: "export_key (report_row ''2'' ''J1'' ''DO1'' ''AWB1'') =
     export_key (report_row ''1'' ''J1'' ''DO1'' ''AWB1'')"
    by (simp add: export_key_def row_key_def report_row_def)
  have "List.find (\<lambda>r. export_key r = export_key (report_row ''2'' ''J1'' ''DO1'' ''AWB1''))
          (df duplicate_run) = Some (report_row ''1'' ''J1'' ''DO1'' ''AWB1'')"
    by (simp add: duplicate_run_def k)
  with export_keeps_first_per_pair
    [of duplicate_run "export_key (report_row ''2'' ''J1'' ''DO1'' ''AWB1'')"]
    k duplicate_run_export
  show ?thesis by simp
qed

subsection \<open>Running the extractor again\<close>

text \<open>
  C9. When the extraction succeeds on a file name and a text, running \<^verbatim>\<open>extract\<close> again on
  the same object succeeds and leaves the object as it is, so the four fields are the same
  after the second run. The row that \<^verbatim>\<open>extract_shipment_info\<close> builds from the file name and
  the text does not depend on the dataframe or on what was logged before: called a second
  time, on the dataframe of the first call and with any effects, it appends the same row
  again.
\<close>

theorem extract_twice_same_record:
  assumes "Shipment_extract (Shipment fp raw) = Inr sh"
  shows "Shipment_extract sh = Inr sh \<and>
         (\<exists>r. map_of r ''reference_id'' = map_option Str (reference_id sh) \<and>
              map_of r ''job_number'' = map_option Str (job_number sh) \<and>
              map_of r ''distribution_order_number'' =
                map_option Str (distribution_order_number sh) \<and>
              map_of r ''airwaybill'' = map_option Str (airwaybill sh) \<and>
              fst (extract_shipment_info self d fp raw w) = (d @ [r], True) \<and>
              fst (extract_shipment_info self (d @ [r]) fp raw w') = (d @ [r, r], True))"
proof -
  let ?S = "Shipment fp raw"
  from assms obtain r rs j js dn ds a as where
    f: "findall (reference_id_pattern ?S) (filename ?S) = r # rs"
       "findall (job_number_pattern ?S) (rawtext ?S) = j # js"
       "findall (distribution_order_number_p ?S) (rawtext ?S) = dn # ds"
       "findall (airwaybill_pattern ?S) (rawtext ?S) = a # as"
    and sh: "sh = ?S\<lparr> reference_id := Some r, job_number := Some j,
                    distribution_order_number := Some dn, airwaybill := Some a \<rparr>"
    unfolding Shipment_extract_Inr_iff by blast
  have 1: "Shipment_extract sh = Inr sh"
    unfolding Shipment_extract_Inr_iff using f by (auto simp: sh)
  let ?row = "[(''reference_id'', Str r),
               (''job_number'', Str j),
               (''distribution_order_number'', Str dn),
               (''airwaybill'', Str a),
               (''path'', Pth fp),
               (''unc_path'', Pth (joinpath (UNC_processed self) (name fp)))]"
  have fn: "filename ?S = name fp" "rawtext ?S = raw"
    by (simp_all add: Shipment_def)
  have row: "shipment_row self fp raw = Inr ?row"
    unfolding shipment_row_Inr_iff using f unfolding fn by blast
  have 2: "map_of ?row ''reference_id'' = map_option Str (reference_id sh) \<and>
           map_of ?row ''job_number'' = map_option Str (job_number sh) \<and>
           map_of ?row ''distribution_order_number'' =
             map_option Str (distribution_order_number sh) \<and>
           map_of ?row ''airwaybill'' = map_option Str (airwaybill sh)"
    by (simp add: sh)
  have 3: "fst (extract_shipment_info self d fp raw w) = (d @ [?row], True)"
    "fst (extract_shipment_info self (d @ [?row]) fp raw w') = (d @ [?row, ?row], True)"
    by (simp_all add: extract_shipment_info_fst row)
  from 1 2 3 show ?thesis by blast
qed

theorem extract_twice_same_record_witness:
  "\<exists>sh. Shipment_extract (Shipment [''source'', ''log_00123.txt''] example_text) = Inr sh \<and>
        Shipment_extract sh = Inr sh \<and>
        reference_id sh = Some ''00123'' \<and> job_number sh = Some ''JOB456'' \<and>
        distribution_order_number sh = Some ''DO789'' \<and> airwaybill sh = Some ''AWB001''"
proof -
  have e: "Shipment_extract (Shipment [''source'', ''log_00123.txt''] example_text) =
     Inr ((Shipment [''source'', ''log_00123.txt''] example_text)
            \<lparr> reference_id := Some ''00123'', job_number := Some ''JOB456'',
              distribution_order_number := Some ''DO789'', airwaybill := Some ''AWB001'' \<rparr>)"
    by (simp add: Shipment_extract_def Shipment_def example_text_def name_def item0_def
          findall.simps group_def)
  from extract_twice_same_record [OF e, THEN conjunct1] e show ?thesis by simp
qed

subsection \<open>Matches are never empty\<close>

lemma sre_match_length:
  "sre_match ops s m = Some (m', rest) \<Longrightarrow> length rest \<le> length s"
  "sre_repeat ops s m n = Some (m', rest) \<Longrightarrow> length rest \<le> length s"
proof (induction ops s m and ops s m n arbitrary: m' rest and m' rest
       rule: sre_match_sre_repeat.induct)
  case (2 c ops s m)
  then show ?case
    by (cases s) (fastforce split: if_splits)+
next
  case (3 k ops s m)
  then show ?case
    by (cases s) (fastforce split: if_splits)+
next
  case (8 ops s m n)
  show ?case
  proof (cases "sre_match ops (drop (Suc n) s) m")
    case None
    with 8 show ?thesis by simp
  next
    case (Some r)
    with 8 have "length rest \<le> length (drop (Suc n) s)" by auto
    then show ?thesis by simp
  qed
qed (auto split: list.splits if_splits)

lemma sre_match_Literal_shorter:
  "sre_match (Literal c # ops) s m = Some (m', rest) \<Longrightarrow> length rest < length s"
  by (cases s) (auto split: if_splits dest: sre_match_length(1))

lemma sre_search_Literal_shorter:
  "sre_search (Literal c # ops) s = Some (g, rest) \<Longrightarrow> length rest < length s"
proof (induction s)
  case Nil
  then show ?case by simp
next
  case (Cons x xs)
  show ?case
  proof (cases "sre_match (Literal c # ops) (x # xs) (x # xs, x # xs)")
    case None
    with Cons show ?thesis by auto
  next
    case (Some r)
    with Cons.prems obtain m' where "sre_match (Literal c # ops) (x # xs) (x # xs, x # xs)
        = Some (m', rest)"
      by (cases r) auto
    then show ?thesis by (rule sre_match_Literal_shorter)
  qed
qed

text \<open>
  A pattern that starts with a literal character never matches the empty string, so
  \<^verbatim>\<open>findall\<close> always goes on from the end of the match before.
\<close>

lemma findall_Literal:
  "findall (Literal c # ops) s =
     (case sre_search (Literal c # ops) s of
        None \<Rightarrow> []
      | Some (g, rest) \<Rightarrow> g # findall (Literal c # ops) rest)"
  by (subst findall.simps) (auto split: option.splits dest: sre_search_Literal_shorter)

end
